theory Spec2Isabelle
  imports Main "HOL-Library.AList" "HOL-Library.Monad_Syntax"
begin

section \<open>JavaScript values as the server sees them\<close>

text \<open>
  Everything \<^verbatim>\<open>server.js\<close> handles is JSON: request bodies read by
  \<^verbatim>\<open>express.json\<close>, query values, and the documents \<^verbatim>\<open>JSON.parse\<close>
  returns. A number is kept as the text \<^verbatim>\<open>String\<close> gives for it (the server only ever
  prints a number or tests it for truth). \<^verbatim>\<open>undefined\<close> is \<open>None\<close> of
  \<open>json option\<close>. A string is a list of code units below 256.
\<close>

datatype json =
    JNull
  | JBool bool
  | JNum string
  | JStr string
  | JArr "json list"
  | JObj "(string \<times> json) list"

type_synonym props = "(string \<times> json) list"

definition isArray :: "json option \<Rightarrow> bool" where
  "isArray v = (case v of Some (JArr xs) \<Rightarrow> True | _ \<Rightarrow> False)"

text \<open>Truthiness (\<^verbatim>\<open>ToBoolean\<close>): a JSON number is falsy only when it is zero, and both
  zeros print as \<^verbatim>\<open>0\<close>.\<close>

fun truthy :: "json option \<Rightarrow> bool" where
  "truthy None = False"
| "truthy (Some JNull) = False"
| "truthy (Some (JBool b)) = b"
| "truthy (Some (JNum n)) = (n \<noteq> ''0'')"
| "truthy (Some (JStr s)) = (s \<noteq> [])"
| "truthy (Some (JArr xs)) = True"
| "truthy (Some (JObj kvs)) = True"

text \<open>\<^verbatim>\<open>v?.k\<close> on a JSON value, for the keys the server reads from request data
  (\<^verbatim>\<open>id\<close>, \<^verbatim>\<open>title\<close>, \<^verbatim>\<open>password\<close>, ...): none of them is an index,
  \<^verbatim>\<open>length\<close> or a member of a built-in prototype, so only an object's own property
  answers.\<close>

fun field :: "json option \<Rightarrow> string \<Rightarrow> json option" where
  "field (Some (JObj kvs)) k = map_of kvs k"
| "field _ k = None"

subsection \<open>String coercion and trimming\<close>

fun join_comma :: "string list \<Rightarrow> string" where
  "join_comma [] = []"
| "join_comma [s] = s"
| "join_comma (s # t # ss) = s @ '','' @ join_comma (t # ss)"

text \<open>
  \<^verbatim>\<open>String(v)\<close>. \<open>None\<close> is the TypeError ("Cannot convert object to primitive value")
  that \<^verbatim>\<open>OrdinaryToPrimitive\<close> raises: a parsed object whose own \<^verbatim>\<open>toString\<close>
  property shadows the inherited method holds a JSON value there, which is not callable, and
  \<^verbatim>\<open>valueOf\<close> (own or inherited) yields no primitive either. An array prints through
  \<^verbatim>\<open>join\<close>, where \<^verbatim>\<open>null\<close> elements print as the empty string.
\<close>

fun js_String :: "json \<Rightarrow> string option" where
  "js_String JNull = Some ''null''"
| "js_String (JBool b) = Some (if b then ''true'' else ''false'')"
| "js_String (JNum n) = Some n"
| "js_String (JStr s) = Some s"
| "js_String (JArr xs) =
     map_option join_comma
       (those (map (\<lambda>x. case x of JNull \<Rightarrow> Some [] | _ \<Rightarrow> js_String x) xs))"
| "js_String (JObj kvs) =
     (if ''toString'' \<in> fst ` set kvs then None else Some ''[object Object]'')"

text \<open>The white space and line terminators \<^verbatim>\<open>trim\<close> strips, among code units
  below 256: TAB, LF, VT, FF, CR, SP and NBSP.\<close>

definition is_ws :: "char \<Rightarrow> bool" where
  "is_ws c = (c \<in> {CHR 0x09, CHR 0x0A, CHR 0x0B, CHR 0x0C, CHR 0x0D, CHR 0x20, CHR 0xA0})"

definition trim :: "string \<Rightarrow> string" where
  "trim s = rev (dropWhile is_ws (rev (dropWhile is_ws s)))"

text \<open>Decimal text of an integer, as a template literal prints \<^verbatim>\<open>Date.now()\<close> and an
  array index (both far below \<open>10^21\<close>, where JavaScript switches to exponents).\<close>

definition digit :: "nat \<Rightarrow> char" where
  "digit d = ''0123456789'' ! d"

function show_nat :: "nat \<Rightarrow> string" where
  "show_nat n = (if n < 10 then [digit n] else show_nat (n div 10) @ [digit (n mod 10)])"
  by pat_completeness auto
termination
  by (relation "measure id") auto

declare show_nat.simps [simp del]

definition show_int :: "int \<Rightarrow> string" where
  "show_int i = (if i < 0 then CHR ''-'' # show_nat (nat (- i)) else show_nat (nat i))"

subsection \<open>getLang and the record normalizers\<close>

text \<open>\<^verbatim>\<open>getLang(req)\<close>, on \<^verbatim>\<open>req.query.lang\<close>.\<close>

definition getLang :: "json option \<Rightarrow> string" where
  "getLang q =
     (let lang = (case q of Some (JStr s) \<Rightarrow> s | _ \<Rightarrow> ''me'')
      in if trim lang = [] then ''me'' else trim lang)"

text \<open>\<^verbatim>\<open>safeString = (value) => String(value ?? "").trim()\<close>\<close>

definition safeString :: "json option \<Rightarrow> string option" where
  "safeString v =
     map_option trim
       (js_String (case v of None \<Rightarrow> JStr [] | Some JNull \<Rightarrow> JStr [] | Some x \<Rightarrow> x))"

text \<open>\<open>now\<close> is the clock: \<open>now i\<close> is what \<^verbatim>\<open>Date.now()\<close> returns while record
  \<open>i\<close> of a batch is normalized. The result \<open>None\<close> is the TypeError of a coercion.\<close>

definition normalizeVehicle :: "(nat \<Rightarrow> int) \<Rightarrow> json \<Rightarrow> nat \<Rightarrow> json option" where
  "normalizeVehicle now vehicle index =
     do {
       sid \<leftarrow> safeString (field (Some vehicle) ''id'');
       let ident = (if sid \<noteq> [] then sid
                    else ''custom-'' @ show_int (now index) @ ''-'' @ show_nat index);
       tag \<leftarrow> safeString (field (Some vehicle) ''tag'');
       title \<leftarrow> safeString (field (Some vehicle) ''title'');
       text \<leftarrow> safeString (field (Some vehicle) ''text'');
       price \<leftarrow> safeString (field (Some vehicle) ''price'');
       image \<leftarrow> safeString (field (Some vehicle) ''image'');
       alt1 \<leftarrow> safeString (field (Some vehicle) ''alt'');
       alt \<leftarrow> (if alt1 \<noteq> [] then Some alt1
               else do {
                 alt2 \<leftarrow> safeString (field (Some vehicle) ''title'');
                 Some (if alt2 \<noteq> [] then alt2 else ''Vozilo'')
               });
       fuel \<leftarrow> safeString (field (Some vehicle) ''fuel'');
       transmission \<leftarrow> safeString (field (Some vehicle) ''transmission'');
       consumption \<leftarrow> safeString (field (Some vehicle) ''consumption'');
       passengers \<leftarrow> safeString (field (Some vehicle) ''passengers'');
       Some (JObj [(''id'', JStr ident), (''tag'', JStr tag), (''title'', JStr title),
                   (''text'', JStr text), (''price'', JStr price), (''image'', JStr image),
                   (''alt'', JStr alt), (''fuel'', JStr fuel),
                   (''transmission'', JStr transmission),
                   (''consumption'', JStr consumption), (''passengers'', JStr passengers)])
     }"

definition normalizeGalleryItem :: "(nat \<Rightarrow> int) \<Rightarrow> json \<Rightarrow> nat \<Rightarrow> json option" where
  "normalizeGalleryItem now item index =
     do {
       sid \<leftarrow> safeString (field (Some item) ''id'');
       let ident = (if sid \<noteq> [] then sid
                    else ''gallery-'' @ show_int (now index) @ ''-'' @ show_nat index);
       title \<leftarrow> safeString (field (Some item) ''title'');
       before_str \<leftarrow> safeString (field (Some item) ''before'');
       after_str \<leftarrow> safeString (field (Some item) ''after'');
       Some (JObj [(''id'', JStr ident), (''title'', JStr title),
                   (''before'', JStr before_str), (''after'', JStr after_str)])
     }"

text \<open>\<^verbatim>\<open>payload.map(f)\<close> with a callback that may throw: the first throw ends the
  loop.\<close>

fun map_index :: "(json \<Rightarrow> nat \<Rightarrow> json option) \<Rightarrow> json list \<Rightarrow> nat \<Rightarrow> json list option" where
  "map_index f [] i = Some []"
| "map_index f (x # xs) i =
     do { y \<leftarrow> f x i; ys \<leftarrow> map_index f xs (Suc i); Some (y # ys) }"

section \<open>Documents, files and server state\<close>

subsection \<open>Objects held in memory\<close>

text \<open>
  A language document is a JSON object (the shape of \<^verbatim>\<open>{}\<close>, the fallback
  \<^verbatim>\<open>readJson\<close> gets at start-up); a file whose text parses to anything else is outside
  this model. In memory such an object has its own properties, in insertion order, and a
  prototype: \<^verbatim>\<open>Object.prototype\<close> when it comes from \<^verbatim>\<open>JSON.parse\<close>, until an
  assignment to the key \<^verbatim>\<open>__proto__\<close> replaces it.
\<close>

datatype prototype = ObjectPrototype | Proto json | NullPrototype

record jsobject =
  own :: props
  proto :: prototype

definition parsed :: "props \<Rightarrow> jsobject" where
  "parsed d = \<lparr>own = d, proto = ObjectPrototype\<rparr>"

text \<open>The own properties of a JSON value that serves as a prototype: an object's keys, an
  array's indices (written in decimal) and its \<^verbatim>\<open>length\<close>.\<close>

fun own_prop :: "json \<Rightarrow> string \<Rightarrow> json option" where
  "own_prop (JObj kvs) k = map_of kvs k"
| "own_prop (JArr xs) k =
     (if k = ''length'' then Some (JNum (show_nat (length xs)))
      else map_option (\<lambda>i. xs ! i) (find (\<lambda>i. show_nat i = k) [0..<length xs]))"
| "own_prop _ k = None"

text \<open>
  \<^verbatim>\<open>data?.[k]\<close> on a document: the own property, else what the prototype chain gives.
  The accessor \<^verbatim>\<open>__proto__\<close> of \<^verbatim>\<open>Object.prototype\<close> returns the prototype of the
  object asked. The functions and objects the built-in prototypes hold are no JSON values;
  they answer \<open>None\<close> here, which is sound for this server: it only asks of a looked-up
  language whether it is an array, which none of them is, and the one key it reads without
  that test, \<^verbatim>\<open>me\<close>, names none of them.
\<close>

definition js_get :: "jsobject \<Rightarrow> string \<Rightarrow> json option" where
  "js_get obj k =
     (case map_of (own obj) k of
        Some v \<Rightarrow> Some v
      | None \<Rightarrow>
          (case proto obj of
             Proto p \<Rightarrow>
               (case own_prop p k of
                  Some v \<Rightarrow> Some v
                | None \<Rightarrow> if k = ''__proto__'' then Some p else None)
           | _ \<Rightarrow> None))"

text \<open>Whether an assignment to \<^verbatim>\<open>__proto__\<close> finds the accessor of
  \<^verbatim>\<open>Object.prototype\<close> at the end of the chain, with no data property of that name
  before it.\<close>

fun reaches_accessor :: "prototype \<Rightarrow> bool" where
  "reaches_accessor ObjectPrototype = True"
| "reaches_accessor (Proto p) = (own_prop p ''__proto__'' = None)"
| "reaches_accessor NullPrototype = False"

text \<open>
  \<^verbatim>\<open>data[k] = v\<close> (sloppy mode). An own property is overwritten in place and a new key is
  appended, except that the key \<^verbatim>\<open>__proto__\<close>, when the object has no own property of
  that name, runs the inherited setter: it installs an object or \<^verbatim>\<open>null\<close> as the
  prototype, ignores any other value, and creates no property.
\<close>

definition js_set :: "jsobject \<Rightarrow> string \<Rightarrow> json \<Rightarrow> jsobject" where
  "js_set obj k v =
     (if k = ''__proto__'' \<and> map_of (own obj) k = None \<and> reaches_accessor (proto obj)
      then (case v of
              JArr xs \<Rightarrow> obj\<lparr>proto := Proto v\<rparr>
            | JObj kvs \<Rightarrow> obj\<lparr>proto := Proto v\<rparr>
            | JNull \<Rightarrow> obj\<lparr>proto := NullPrototype\<rparr>
            | _ \<Rightarrow> obj)
      else obj\<lparr>own := AList.update k v (own obj)\<rparr>)"

text \<open>\<^verbatim>\<open>Array.isArray(data?.[lang]) ? data[lang] : (data?.me || [])\<close>, the expression all
  four list and reset routes use.\<close>

definition list_or_me :: "jsobject \<Rightarrow> string \<Rightarrow> json" where
  "list_or_me data lang =
     (case js_get data lang of
        Some (JArr xs) \<Rightarrow> JArr xs
      | _ \<Rightarrow> (case js_get data ''me'' of
                Some v \<Rightarrow> if truthy (Some v) then v else JArr []
              | None \<Rightarrow> JArr []))"

subsection \<open>Files, sessions, state\<close>

text \<open>A JSON file on disk: absent, present but not readable as JSON, or holding a
  document.\<close>

datatype disk_file = Missing | Unreadable | Holds props

record session =
  admin :: "bool option"

text \<open>
  One part of a \<^verbatim>\<open>multipart/form-data\<close> body as the client sent it: the
  \<^verbatim>\<open>name\<close> and \<^verbatim>\<open>filename\<close> of its \<^verbatim>\<open>Content-Disposition\<close> (an empty
  file name when it gives none), the value of its \<^verbatim>\<open>Content-Type\<close> header if it has
  one, and its bytes. And the file object \<^verbatim>\<open>multer\<close> hands to the callbacks of
  \<^verbatim>\<open>server.js\<close>, here together with the bytes of its stream.
\<close>

record part =
  part_name :: string
  part_filename :: string
  part_type :: "string option"
  part_bytes :: string

record upload_file =
  fieldname :: string
  originalname :: string
  mimetype :: string
  content :: string

text \<open>
  The server's state between requests: the two live files, the two default documents held
  in memory (\<^verbatim>\<open>defaultFleet\<close>, \<^verbatim>\<open>defaultGallery\<close>), the upload directory, the
  session of the client, and a count of the calls of \<^verbatim>\<open>fs.writeFileSync\<close> made so far.
\<close>

record state =
  fleet_json :: disk_file
  gallery_json :: disk_file
  defaultFleet :: jsobject
  defaultGallery :: jsobject
  uploads :: "(string \<times> string) list"
  session :: session
  fs_writes :: nat

text \<open>
  What the process environment and the libraries give a request: the two credentials of
  \<^verbatim>\<open>process.env\<close>, \<^verbatim>\<open>bcrypt.compareSync\<close>, the clock, the random part of an upload's
  name, \<^verbatim>\<open>path.extname(name).toLowerCase()\<close>, the error with which
  \<^verbatim>\<open>fs.writeFileSync\<close> fails (if it does), and the message of the syntax error with
  which the JSON body parser refuses a value.
\<close>

record env =
  ADMIN_PASSWORD :: "string option"
  ADMIN_PASSWORD_HASH :: "string option"
  compareSync :: "string \<Rightarrow> string \<Rightarrow> bool"
  now :: "nat \<Rightarrow> int"
  random_hex :: string
  extname_lower :: "string \<Rightarrow> string"
  write_error :: "string option"
  strict_message :: "json \<Rightarrow> string"

datatype js_error = Error string

record response =
  status :: nat
  body :: json

definition json_res :: "nat \<Rightarrow> json \<Rightarrow> response" where
  "json_res code v = \<lparr>status = code, body = v\<rparr>"

definition error_body :: "string \<Rightarrow> json" where
  "error_body m = JObj [(''error'', JStr m)]"

type_synonym outcome = "(js_error + response) \<times> state"

subsection \<open>Reading and writing the documents\<close>

text \<open>
  \<^verbatim>\<open>readJson(filePath, fallback)\<close> returns either a fresh object or the fallback itself,
  not a copy of it. A reference says which object a variable holds, so that an assignment
  through \<^verbatim>\<open>data\<close> reaches the default document when \<^verbatim>\<open>data\<close> is that document.
\<close>

datatype reference = Temp jsobject | FleetDefaults | GalleryDefaults

definition readJson :: "disk_file \<Rightarrow> reference \<Rightarrow> reference" where
  "readJson f fallback = (case f of Holds d \<Rightarrow> Temp (parsed d) | _ \<Rightarrow> fallback)"

definition deref :: "state \<Rightarrow> reference \<Rightarrow> jsobject" where
  "deref st r =
     (case r of Temp obj \<Rightarrow> obj | FleetDefaults \<Rightarrow> defaultFleet st
      | GalleryDefaults \<Rightarrow> defaultGallery st)"

definition assign :: "reference \<Rightarrow> string \<Rightarrow> json \<Rightarrow> state \<Rightarrow> reference \<times> state" where
  "assign r k v st =
     (case r of
        Temp obj \<Rightarrow> (Temp (js_set obj k v), st)
      | FleetDefaults \<Rightarrow> (r, st\<lparr>defaultFleet := js_set (defaultFleet st) k v\<rparr>)
      | GalleryDefaults \<Rightarrow> (r, st\<lparr>defaultGallery := js_set (defaultGallery st) k v\<rparr>))"

definition readFleet :: "state \<Rightarrow> reference" where
  "readFleet st = readJson (fleet_json st) FleetDefaults"

definition readGallery :: "state \<Rightarrow> reference" where
  "readGallery st = readJson (gallery_json st) GalleryDefaults"

text \<open>
  \<^verbatim>\<open>fs.writeFileSync(FILE, JSON.stringify(data, null, 2))\<close>: the text holds the own
  properties of \<^verbatim>\<open>data\<close> and nothing of its prototype. A write that fails throws before
  the file is touched.
\<close>

definition writeFleet :: "env \<Rightarrow> jsobject \<Rightarrow> state \<Rightarrow> (js_error + unit) \<times> state" where
  "writeFleet e data st =
     (let st1 = st\<lparr>fs_writes := Suc (fs_writes st)\<rparr>
      in case write_error e of
           Some m \<Rightarrow> (Inl (Error m), st1)
         | None \<Rightarrow> (Inr (), st1\<lparr>fleet_json := Holds (own data)\<rparr>))"

definition writeGallery :: "env \<Rightarrow> jsobject \<Rightarrow> state \<Rightarrow> (js_error + unit) \<times> state" where
  "writeGallery e data st =
     (let st1 = st\<lparr>fs_writes := Suc (fs_writes st)\<rparr>
      in case write_error e of
           Some m \<Rightarrow> (Inl (Error m), st1)
         | None \<Rightarrow> (Inr (), st1\<lparr>gallery_json := Holds (own data)\<rparr>))"

text \<open>Start-up: the default documents are read once (\<^verbatim>\<open>{}\<close> when their file cannot be
  read), then \<^verbatim>\<open>ensureDataFile\<close> creates the live files that do not exist.\<close>

definition ensureDataFile :: "state \<Rightarrow> state" where
  "ensureDataFile st =
     (let st1 = (if fleet_json st = Missing
                 then st\<lparr>fleet_json := Holds (own (defaultFleet st))\<rparr> else st)
      in if gallery_json st1 = Missing
         then st1\<lparr>gallery_json := Holds (own (defaultGallery st1))\<rparr> else st1)"

definition startup :: "disk_file \<Rightarrow> disk_file \<Rightarrow> disk_file \<Rightarrow> disk_file \<Rightarrow> (string \<times> string) list \<Rightarrow> state" where
  "startup fleet_defaults gallery_defaults fleet gallery dir =
     ensureDataFile
       \<lparr>fleet_json = fleet, gallery_json = gallery,
        defaultFleet = (case fleet_defaults of Holds d \<Rightarrow> parsed d | _ \<Rightarrow> parsed []),
        defaultGallery = (case gallery_defaults of Holds d \<Rightarrow> parsed d | _ \<Rightarrow> parsed []),
        uploads = dir, session = \<lparr>admin = None\<rparr>, fs_writes = 0\<rparr>"

section \<open>The routes\<close>

subsection \<open>Password check and session guard\<close>

text \<open>\<^verbatim>\<open>verifyPassword(password)\<close>: a value of \<^verbatim>\<open>process.env\<close> counts when it is set
  and not empty.\<close>

definition verifyPassword :: "env \<Rightarrow> string \<Rightarrow> bool" where
  "verifyPassword e password =
     (case ADMIN_PASSWORD_HASH e of
        Some (c # cs) \<Rightarrow> compareSync e password (c # cs)
      | _ \<Rightarrow> (case ADMIN_PASSWORD e of
                Some (c # cs) \<Rightarrow> password = c # cs
              | _ \<Rightarrow> False))"

text \<open>\<^verbatim>\<open>requireAuth(req, res, next)\<close>\<close>

definition requireAuth :: "state \<Rightarrow> (state \<Rightarrow> outcome) \<Rightarrow> outcome" where
  "requireAuth st next =
     (if admin (session st) = Some True then next st
      else (Inr (json_res 401 (error_body ''Unauthorized'')), st))"

text \<open>\<^verbatim>\<open>POST /api/auth/login\<close>, \<^verbatim>\<open>GET /api/auth/me\<close>, \<^verbatim>\<open>POST /api/auth/logout\<close>\<close>

definition post_login :: "env \<Rightarrow> json option \<Rightarrow> state \<Rightarrow> outcome" where
  "post_login e reqbody st =
     (let password = (case field reqbody ''password'' of Some (JStr s) \<Rightarrow> s | _ \<Rightarrow> [])
      in if password = [] then (Inr (json_res 400 (error_body ''Missing password'')), st)
         else if \<not> verifyPassword e password
         then (Inr (json_res 401 (error_body ''Invalid password'')), st)
         else (Inr (json_res 200 (JObj [(''ok'', JBool True)])),
               st\<lparr>session := (session st)\<lparr>admin := Some True\<rparr>\<rparr>))"

definition get_me :: "state \<Rightarrow> outcome" where
  "get_me st =
     (Inr (json_res 200 (JObj [(''authed'', JBool (admin (session st) = Some True))])), st)"

definition post_logout :: "state \<Rightarrow> outcome" where
  "post_logout st =
     (Inr (json_res 200 (JObj [(''ok'', JBool True)])), st\<lparr>session := \<lparr>admin = None\<rparr>\<rparr>)"

subsection \<open>Fleet and gallery\<close>

definition TypeError_primitive :: js_error where
  "TypeError_primitive = Error ''Cannot convert object to primitive value''"

text \<open>\<^verbatim>\<open>Array.isArray(req.body) ? req.body : []\<close>\<close>

definition payload_of :: "json option \<Rightarrow> json list" where
  "payload_of reqbody = (case reqbody of Some (JArr xs) \<Rightarrow> xs | _ \<Rightarrow> [])"

definition get_fleet :: "json option \<Rightarrow> state \<Rightarrow> outcome" where
  "get_fleet q st =
     (let lang = getLang q;
          data = readFleet st
      in (Inr (json_res 200 (list_or_me (deref st data) lang)), st))"

definition put_fleet :: "env \<Rightarrow> json option \<Rightarrow> json option \<Rightarrow> state \<Rightarrow> outcome" where
  "put_fleet e q reqbody st =
     (let lang = getLang q;
          payload = payload_of reqbody
      in case map_index (normalizeVehicle (now e)) payload 0 of
           None \<Rightarrow> (Inl TypeError_primitive, st)
         | Some normalized \<Rightarrow>
             (let data = readFleet st;
                  (data, st1) = assign data lang (JArr normalized) st;
                  (written, st2) = writeFleet e (deref st1 data) st1
              in case written of
                   Inl err \<Rightarrow> (Inl err, st2)
                 | Inr _ \<Rightarrow> (Inr (json_res 200 (JArr normalized)), st2)))"

definition post_fleet_reset :: "env \<Rightarrow> json option \<Rightarrow> state \<Rightarrow> outcome" where
  "post_fleet_reset e q st =
     (let lang = getLang q;
          data = readFleet st;
          fallback = list_or_me (defaultFleet st) lang;
          (data, st1) = assign data lang fallback st;
          (written, st2) = writeFleet e (deref st1 data) st1
      in case written of
           Inl err \<Rightarrow> (Inl err, st2)
         | Inr _ \<Rightarrow> (Inr (json_res 200 fallback), st2))"

definition get_gallery :: "json option \<Rightarrow> state \<Rightarrow> outcome" where
  "get_gallery q st =
     (let lang = getLang q;
          data = readGallery st
      in (Inr (json_res 200 (list_or_me (deref st data) lang)), st))"

definition put_gallery :: "env \<Rightarrow> json option \<Rightarrow> json option \<Rightarrow> state \<Rightarrow> outcome" where
  "put_gallery e q reqbody st =
     (let lang = getLang q;
          payload = payload_of reqbody
      in case map_index (normalizeGalleryItem (now e)) payload 0 of
           None \<Rightarrow> (Inl TypeError_primitive, st)
         | Some normalized \<Rightarrow>
             (let data = readGallery st;
                  (data, st1) = assign data lang (JArr normalized) st;
                  (written, st2) = writeGallery e (deref st1 data) st1
              in case written of
                   Inl err \<Rightarrow> (Inl err, st2)
                 | Inr _ \<Rightarrow> (Inr (json_res 200 (JArr normalized)), st2)))"

definition post_gallery_reset :: "env \<Rightarrow> json option \<Rightarrow> state \<Rightarrow> outcome" where
  "post_gallery_reset e q st =
     (let lang = getLang q;
          data = readGallery st;
          fallback = list_or_me (defaultGallery st) lang;
          (data, st1) = assign data lang fallback st;
          (written, st2) = writeGallery e (deref st1 data) st1
      in case written of
           Inl err \<Rightarrow> (Inl err, st2)
         | Inr _ \<Rightarrow> (Inr (json_res 200 fallback), st2))"

subsection \<open>Upload\<close>

definition startsWith :: "string \<Rightarrow> string \<Rightarrow> bool" where
  "startsWith s p = (take (length p) s = p)"

text \<open>The \<^verbatim>\<open>fileFilter\<close> and \<^verbatim>\<open>filename\<close> callbacks and the size limit given to
  \<^verbatim>\<open>multer\<close>.\<close>

definition fileFilter :: "upload_file \<Rightarrow> js_error + bool" where
  "fileFilter f =
     (if startsWith (mimetype f) ''image/'' then Inr True
      else Inl (Error ''Only images are allowed''))"

definition filename :: "env \<Rightarrow> upload_file \<Rightarrow> string" where
  "filename e f =
     (let ext = extname_lower e (originalname f)
      in show_int (now e 0) @ ''-'' @ random_hex e @ ext)"

definition fileSize_limit :: nat where
  "fileSize_limit = 5 * 1024 * 1024"

subsection \<open>The multipart parser\<close>

text \<open>
  \<^verbatim>\<open>multer\<close> and the parser under it (\<^verbatim>\<open>busboy\<close>) are libraries, not part of the
  repository; what follows is their behaviour in the current line (\<^verbatim>\<open>busboy\<close> 1, which
  \<^verbatim>\<open>multer\<close> 1.4.5 and 2 use), as far as \<^verbatim>\<open>POST /api/upload\<close> depends on it.

  The media type of a part is not the text of its \<^verbatim>\<open>Content-Type\<close> header: the parser
  reads a type and a subtype, both tokens, separated by a slash, then parameters of the form
  \<^verbatim>\<open>; name=value\<close>, and reports type and subtype in lower case. When the header is
  missing or does not have that form, it reports \<^verbatim>\<open>text/plain\<close>.
\<close>

definition is_token :: "char \<Rightarrow> bool" where
  "is_token c =
     (c \<in> set ''0123456789abcdefghijklmnopqrstuvwxyzABCDEFGHIJKLMNOPQRSTUVWXYZ!#$%&*+-.^_|~''
      \<or> c = CHR 0x27 \<or> c = CHR 0x60)"

text \<open>\<^verbatim>\<open>toLowerCase\<close> on a token, whose letters are those from A to Z.\<close>

definition toLowerCase :: "string \<Rightarrow> string" where
  "toLowerCase s =
     map (\<lambda>c. case map_of (zip ''ABCDEFGHIJKLMNOPQRSTUVWXYZ'' ''abcdefghijklmnopqrstuvwxyz'') c of
                 Some l \<Rightarrow> l | None \<Rightarrow> c) s"

text \<open>The text allowed inside a quoted parameter value: TAB, SP and the visible characters
  other than the double quote and the backslash, and the code units from 128 on.\<close>

definition is_qdtext :: "char \<Rightarrow> bool" where
  "is_qdtext c =
     (c = CHR 0x09 \<or> (32 \<le> (of_char c :: nat) \<and> c \<noteq> CHR 0x22 \<and> c \<noteq> CHR 0x5C
                        \<and> c \<noteq> CHR 0x7F))"

text \<open>Where the scan of the parameters stands: between parameters, after a semicolon, in a
  name, at the start of a value, in an unquoted value, in a quoted value (after a backslash
  or not).\<close>

datatype scan = Between | AfterSemicolon | InName | AtValue | Unquoted | Quoted bool

fun parameters_ok :: "scan \<Rightarrow> string \<Rightarrow> bool" where
  "parameters_ok Between [] = True"
| "parameters_ok Between (c # cs) =
     (if c = CHR 0x20 \<or> c = CHR 0x09 then parameters_ok Between cs
      else if c = CHR '';'' then parameters_ok AfterSemicolon cs
      else False)"
| "parameters_ok AfterSemicolon [] = False"
| "parameters_ok AfterSemicolon (c # cs) =
     (if c = CHR 0x20 \<or> c = CHR 0x09 then parameters_ok AfterSemicolon cs
      else if is_token c then parameters_ok InName cs
      else if c = CHR ''='' then parameters_ok AtValue cs
      else False)"
| "parameters_ok InName [] = False"
| "parameters_ok InName (c # cs) =
     (if is_token c then parameters_ok InName cs
      else if c = CHR ''='' then parameters_ok AtValue cs
      else False)"
| "parameters_ok AtValue [] = False"
| "parameters_ok AtValue (c # cs) =
     (if c = CHR 0x22 then parameters_ok (Quoted False) cs
      else if is_token c then parameters_ok Unquoted cs
      else False)"
| "parameters_ok Unquoted [] = True"
| "parameters_ok Unquoted (c # cs) =
     (if is_token c then parameters_ok Unquoted cs
      else if c = CHR 0x20 \<or> c = CHR 0x09 then parameters_ok Between cs
      else if c = CHR '';'' then parameters_ok AfterSemicolon cs
      else False)"
| "parameters_ok (Quoted escaping) [] = False"
| "parameters_ok (Quoted escaping) (c # cs) =
     (if c = CHR 0x5C then parameters_ok (Quoted (\<not> escaping)) cs
      else if c = CHR 0x22
      then (if escaping then parameters_ok (Quoted False) cs else parameters_ok Between cs)
      else if is_qdtext c then parameters_ok (Quoted False) cs
      else False)"

definition parseContentType :: "string \<Rightarrow> (string \<times> string) option" where
  "parseContentType str =
     (let type = takeWhile is_token str;
          rest = dropWhile is_token str
      in if type = [] \<or> rest = [] \<or> hd rest \<noteq> CHR ''/'' then None
         else
           (let subtype = takeWhile is_token (tl rest);
                params = dropWhile is_token (tl rest)
            in if subtype = [] \<or> \<not> parameters_ok Between params then None
               else Some (toLowerCase type, toLowerCase subtype)))"

definition mimeType :: "string option \<Rightarrow> string" where
  "mimeType header =
     (case header of
        None \<Rightarrow> ''text/plain''
      | Some str \<Rightarrow>
          (case parseContentType str of
             None \<Rightarrow> ''text/plain''
           | Some (type, subtype) \<Rightarrow> type @ ''/'' @ subtype))"

text \<open>
  \<^verbatim>\<open>upload.single(name)\<close>, the middleware that drives the callbacks. Without a file
  part, or with a part that names no file, \<^verbatim>\<open>req.file\<close> stays undefined. A file in a
  field of another name ends the request with the error "Unexpected field". The filter is
  asked before anything is stored, with the file name and the media type the parser
  reports, and its error ends the request. A file whose size reaches the limit ends it with
  the error "File too large", and what was stored of it is removed. Otherwise the bytes are
  stored under the generated name. A disk failure while storing an upload is not modelled.
\<close>

definition upload_single ::
  "env \<Rightarrow> string \<Rightarrow> part option \<Rightarrow> state \<Rightarrow> (js_error + string option) \<times> state"
where
  "upload_single e name sent st =
     (case sent of
        None \<Rightarrow> (Inr None, st)
      | Some p \<Rightarrow>
          if part_filename p = [] then (Inr None, st)
          else if part_name p \<noteq> name then (Inl (Error ''Unexpected field''), st)
          else
            (let f = \<lparr>fieldname = part_name p, originalname = part_filename p,
                      mimetype = mimeType (part_type p), content = part_bytes p\<rparr>
             in case fileFilter f of
                  Inl err \<Rightarrow> (Inl err, st)
                | Inr False \<Rightarrow> (Inr None, st)
                | Inr True \<Rightarrow>
                    if fileSize_limit \<le> length (content f)
                    then (Inl (Error ''File too large''), st)
                    else (Inr (Some (filename e f)),
                          st\<lparr>uploads := (filename e f, content f) # uploads st\<rparr>)))"

text \<open>\<^verbatim>\<open>app.post("/api/upload", requireAuth, upload.single("image"), ...)\<close>, after the
  guard.\<close>

definition post_upload :: "env \<Rightarrow> part option \<Rightarrow> state \<Rightarrow> outcome" where
  "post_upload e sent st =
     (case upload_single e ''image'' sent st of
        (Inl err, st1) \<Rightarrow> (Inl err, st1)
      | (Inr None, st1) \<Rightarrow> (Inr (json_res 400 (error_body ''No file'')), st1)
      | (Inr (Some name), st1) \<Rightarrow>
          (Inr (json_res 200 (JObj [(''url'', JStr (''/uploads/'' @ name))])), st1))"

subsection \<open>The application\<close>

text \<open>The error-handling middleware, \<^verbatim>\<open>app.use((err, _req, res, _next) => ...)\<close>. Express
  calls it only with an error in hand, so its first branch never runs.\<close>

definition error_middleware :: "js_error option \<Rightarrow> response" where
  "error_middleware err =
     (case err of
        None \<Rightarrow> json_res 500 (error_body ''Server error'')
      | Some (Error message) \<Rightarrow>
          json_res 400 (error_body (if message \<noteq> [] then message else ''Bad request'')))"

text \<open>A request to one of the API routes: the value of \<^verbatim>\<open>req.query.lang\<close>, the parsed
  \<^verbatim>\<open>req.body\<close>, the file part of a multipart body.\<close>

datatype request =
    PostLogin "json option"
  | GetMe
  | PostLogout
  | GetFleet "json option"
  | PutFleet "json option" "json option"
  | PostFleetReset "json option"
  | GetGallery "json option"
  | PutGallery "json option" "json option"
  | PostGalleryReset "json option"
  | PostUpload "part option"

fun route :: "env \<Rightarrow> request \<Rightarrow> state \<Rightarrow> outcome" where
  "route e (PostLogin b) st = post_login e b st"
| "route e GetMe st = get_me st"
| "route e PostLogout st = post_logout st"
| "route e (GetFleet q) st = get_fleet q st"
| "route e (PutFleet q b) st = requireAuth st (put_fleet e q b)"
| "route e (PostFleetReset q) st = requireAuth st (post_fleet_reset e q)"
| "route e (GetGallery q) st = get_gallery q st"
| "route e (PutGallery q b) st = requireAuth st (put_gallery e q b)"
| "route e (PostGalleryReset q) st = requireAuth st (post_gallery_reset e q)"
| "route e (PostUpload sent) st = requireAuth st (post_upload e sent)"

text \<open>A request, taken as it reaches the router, runs its route; what the route throws goes
  to the error middleware. The state a throwing route leaves behind stays.\<close>

definition app :: "env \<Rightarrow> request \<Rightarrow> state \<Rightarrow> response \<times> state" where
  "app e req st =
     (case route e req st of
        (Inr res, st1) \<Rightarrow> (res, st1)
      | (Inl err, st1) \<Rightarrow> (error_middleware (Some err), st1))"

subsection \<open>The JSON body parser\<close>

text \<open>
  \<^verbatim>\<open>app.use(express.json({ limit: "2mb" }))\<close> stands before the session and the routes.
  The library is not part of the repository; this is its documented behaviour for a request
  body that is JSON text within the limit, given by its value: in its default strict mode
  the parser accepts only an array or an object and refuses any other value with a syntax
  error, which goes to the error middleware; without a JSON body it leaves
  \<^verbatim>\<open>req.body\<close> empty (undefined or \<^verbatim>\<open>{}\<close>, by version; the routes treat the two
  alike). \<open>http\<close> is a request with such a body on its way to a route: \<open>to_route\<close>
  is \<open>PostLogin\<close>, \<open>PutFleet q\<close> or \<open>PutGallery q\<close> for the routes that read
  \<^verbatim>\<open>req.body\<close>, and a function that ignores its argument for the others.
\<close>

definition express_json :: "env \<Rightarrow> json option \<Rightarrow> js_error + json option" where
  "express_json e sent =
     (case sent of
        None \<Rightarrow> Inr None
      | Some (JArr xs) \<Rightarrow> Inr (Some (JArr xs))
      | Some (JObj kvs) \<Rightarrow> Inr (Some (JObj kvs))
      | Some v \<Rightarrow> Inl (Error (strict_message e v)))"

definition http :: "env \<Rightarrow> json option \<Rightarrow> (json option \<Rightarrow> request) \<Rightarrow> state \<Rightarrow> response \<times> state" where
  "http e sent to_route st =
     (case express_json e sent of
        Inl err \<Rightarrow> (error_middleware (Some err), st)
      | Inr reqbody \<Rightarrow> app e (to_route reqbody) st)"

section \<open>Notions used in the statements\<close>

text \<open>A string is trimmed when it neither starts nor ends with white space.\<close>

definition trimmed :: "string \<Rightarrow> bool" where
  "trimmed s = (s = [] \<or> (\<not> is_ws (hd s) \<and> \<not> is_ws (last s)))"

text \<open>A record of fixed shape: an object with exactly the given keys, in that order, each
  holding a trimmed string; and the identifier of a record.\<close>

definition string_fields :: "string list \<Rightarrow> json \<Rightarrow> bool" where
  "string_fields keys r =
     (case r of
        JObj kvs \<Rightarrow>
          map fst kvs = keys
          \<and> list_all (\<lambda>v. case v of JStr s \<Rightarrow> trimmed s | _ \<Rightarrow> False) (map snd kvs)
      | _ \<Rightarrow> False)"

definition record_id :: "json \<Rightarrow> string" where
  "record_id r = (case field (Some r) ''id'' of Some (JStr s) \<Rightarrow> s | _ \<Rightarrow> [])"

definition vehicle_keys :: "string list" where
  "vehicle_keys = [''id'', ''tag'', ''title'', ''text'', ''price'', ''image'', ''alt'', ''fuel'',
                   ''transmission'', ''consumption'', ''passengers'']"

definition gallery_keys :: "string list" where
  "gallery_keys = [''id'', ''title'', ''before'', ''after'']"

text \<open>Both live files hold a document; and the state after a sequence of requests, each
  with the environment it meets.\<close>

definition files_readable :: "state \<Rightarrow> bool" where
  "files_readable st =
     ((case fleet_json st of Holds d \<Rightarrow> True | _ \<Rightarrow> False)
      \<and> (case gallery_json st of Holds d \<Rightarrow> True | _ \<Rightarrow> False))"

definition run :: "(env \<times> request) list \<Rightarrow> state \<Rightarrow> state" where
  "run reqs st = foldl (\<lambda>s (e, req). snd (app e req s)) st reqs"

section \<open>Concrete configurations\<close>

text \<open>A configuration with a plaintext credential and a working disk, the same with a disk
  that refuses writes, and one whose credential is the hash of some password that
  \<^verbatim>\<open>compareSync\<close> accepts.\<close>

definition example_env :: env where
  "example_env =
     \<lparr>ADMIN_PASSWORD = Some ''secret'', ADMIN_PASSWORD_HASH = None,
      compareSync = (\<lambda>password hash. False), now = (\<lambda>i. 1700000000000),
      random_hex = ''a1b2c3d4e5f6'', extname_lower = (\<lambda>name. ''.png''),
      write_error = None,
      strict_message = (\<lambda>v. ''Unexpected token in JSON at position 0'')\<rparr>"

definition readonly_disk_env :: env where
  "readonly_disk_env =
     example_env\<lparr>write_error :=
       Some ''EACCES: permission denied, open /srv/tuo/server/data/fleet.json''\<rparr>"

definition hashed_env :: env where
  "hashed_env =
     example_env\<lparr>ADMIN_PASSWORD_HASH := Some ''$2a$10$hash'',
       compareSync := (\<lambda>password hash. password = ''hunter2'' \<and> hash = ''$2a$10$hash'')\<rparr>"

definition unconfigured_env :: env where
  "unconfigured_env = example_env\<lparr>ADMIN_PASSWORD := None\<rparr>"

definition fleet_defaults :: props where
  "fleet_defaults =
     [(''me'', JArr [JObj [(''id'', JStr ''d1''), (''title'', JStr ''Default car'')]])]"

definition gallery_defaults :: props where
  "gallery_defaults =
     [(''me'', JArr [JObj [(''id'', JStr ''g1''), (''title'', JStr ''Default photo'')]])]"

text \<open>The server after a start with both defaults files in place and no live files yet; the
  same with the administrator logged in; and a start that found \<^verbatim>\<open>fleet.json\<close> in
  place but not readable as JSON, with the administrator logged in.\<close>

definition started :: state where
  "started = startup (Holds fleet_defaults) (Holds gallery_defaults) Missing Missing []"

definition logged_in :: state where
  "logged_in = started\<lparr>session := \<lparr>admin = Some True\<rparr>\<rparr>"

definition started_unreadable :: state where
  "started_unreadable =
     (startup (Holds fleet_defaults) (Holds gallery_defaults) Unreadable Missing [])
       \<lparr>session := \<lparr>admin = Some True\<rparr>\<rparr>"

definition car_a :: json where
  "car_a = JArr [JObj [(''title'', JStr ''Car A'')]]"

definition car_a_normalized :: json where
  "car_a_normalized =
     JArr [JObj [(''id'', JStr ''custom-1700000000000-0''), (''tag'', JStr []),
                 (''title'', JStr ''Car A''), (''text'', JStr []), (''price'', JStr []),
                 (''image'', JStr []), (''alt'', JStr ''Car A''), (''fuel'', JStr []),
                 (''transmission'', JStr []), (''consumption'', JStr []),
                 (''passengers'', JStr [])]]"


definition png_file :: part where
  "png_file =
     \<lparr>part_name = ''image'', part_filename = ''Photo.PNG'', part_type = Some ''image/png'',
      part_bytes = ''PNG...''\<rparr>"

text \<open>A start with no defaults files and no live files: every document is \<^verbatim>\<open>{}\<close>.\<close>

definition bare :: state where
  "bare = (startup Missing Missing Missing Missing [])\<lparr>session := \<lparr>admin = Some True\<rparr>\<rparr>"

text \<open>The server with a live fleet file that holds a list for \<^verbatim>\<open>me\<close> and another for
  \<^verbatim>\<open>en\<close>, and with one that holds a string at \<^verbatim>\<open>me\<close>.\<close>

definition two_languages :: state where
  "two_languages =
     started\<lparr>fleet_json :=
       Holds (fleet_defaults
              @ [(''en'', JArr [JObj [(''id'', JStr ''e1''), (''title'', JStr ''English car'')]])])\<rparr>"

definition me_is_text :: state where
  "me_is_text = started\<lparr>fleet_json := Holds [(''me'', JStr ''abc'')]\<rparr>"

section \<open>Basic facts\<close>

lemma map_index_length: "map_index f xs i = Some ys \<Longrightarrow> length ys = length xs"
  by (induction xs arbitrary: i ys) (auto split: bind_splits)

lemma show_int_now: "show_int 1700000000000 = ''1700000000000''"
  by (simp add: show_int_def show_nat.simps digit_def)

lemma show_nat_0: "show_nat 0 = ''0''"
  by (simp add: show_nat.simps digit_def)

lemma started_eq:
  "started =
     \<lparr>fleet_json = Holds fleet_defaults, gallery_json = Holds gallery_defaults,
      defaultFleet = parsed fleet_defaults, defaultGallery = parsed gallery_defaults,
      uploads = [], session = \<lparr>admin = None\<rparr>, fs_writes = 0\<rparr>"
  by (simp add: started_def startup_def ensureDataFile_def parsed_def)

lemma logged_in_eq:
  "logged_in =
     \<lparr>fleet_json = Holds fleet_defaults, gallery_json = Holds gallery_defaults,
      defaultFleet = parsed fleet_defaults, defaultGallery = parsed gallery_defaults,
      uploads = [], session = \<lparr>admin = Some True\<rparr>, fs_writes = 0\<rparr>"
  by (simp add: logged_in_def started_eq)

lemma started_unreadable_eq:
  "started_unreadable =
     \<lparr>fleet_json = Unreadable, gallery_json = Holds gallery_defaults,
      defaultFleet = parsed fleet_defaults, defaultGallery = parsed gallery_defaults,
      uploads = [], session = \<lparr>admin = Some True\<rparr>, fs_writes = 0\<rparr>"
  by (simp add: started_unreadable_def startup_def ensureDataFile_def parsed_def)

lemma bare_eq:
  "bare =
     \<lparr>fleet_json = Holds [], gallery_json = Holds [],
      defaultFleet = parsed [], defaultGallery = parsed [],
      uploads = [], session = \<lparr>admin = Some True\<rparr>, fs_writes = 0\<rparr>"
  by (simp add: bare_def startup_def ensureDataFile_def parsed_def)

lemma js_get_parsed [simp]: "js_get (parsed d) k = map_of d k"
  by (simp add: js_get_def parsed_def split: option.splits)

lemma getLang_literal [simp]:
  "getLang (Some (JStr ''me'')) = ''me''" "getLang (Some (JStr ''en'')) = ''en''"
  "getLang (Some (JStr ''__proto__'')) = ''__proto__''" "getLang None = ''me''"
  by (simp_all add: getLang_def trim_def is_ws_def)

lemma snd_app: "snd (app e req st) = snd (route e req st)"
  by (simp add: app_def split: prod.splits sum.splits)

lemma fst_app_Inl:
  "fst (route e req st) = Inl err \<Longrightarrow> fst (app e req st) = error_middleware (Some err)"
  by (cases "route e req st") (auto simp: app_def)

lemma http_accepted:
  "sent = None \<or> (\<exists>xs. sent = Some (JArr xs)) \<or> (\<exists>kvs. sent = Some (JObj kvs)) \<Longrightarrow>
   http e sent to_route st = app e (to_route sent) st"
  by (auto simp: http_def express_json_def)

lemma http_refused:
  "\<forall>xs. v \<noteq> JArr xs \<Longrightarrow> \<forall>kvs. v \<noteq> JObj kvs \<Longrightarrow>
   http e (Some v) to_route st
     = (json_res 400 (error_body (if strict_message e v \<noteq> [] then strict_message e v
                                  else ''Bad request'')), st)"
  by (cases v) (simp_all add: http_def express_json_def error_middleware_def)

lemma readFleet_Holds: "fleet_json st = Holds d \<Longrightarrow> deref st (readFleet st) = parsed d"
  by (simp add: readFleet_def readJson_def deref_def)

lemma readGallery_Holds: "gallery_json st = Holds d \<Longrightarrow> deref st (readGallery st) = parsed d"
  by (simp add: readGallery_def readJson_def deref_def)

lemma normalize_car_a:
  "map_index (normalizeVehicle (now example_env)) (payload_of (Some car_a)) 0
     = Some [JObj [(''id'', JStr ''custom-1700000000000-0''), (''tag'', JStr []),
                 (''title'', JStr ''Car A''), (''text'', JStr []), (''price'', JStr []),
                 (''image'', JStr []), (''alt'', JStr ''Car A''), (''fuel'', JStr []),
                 (''transmission'', JStr []), (''consumption'', JStr []),
                 (''passengers'', JStr [])]]"
  by (simp add: example_env_def payload_of_def car_a_def
        normalizeVehicle_def safeString_def trim_def is_ws_def show_int_now show_nat_0)

lemma example_env_writes: "write_error example_env = None"
  by (simp add: example_env_def)

lemmas eval_defs = example_env_writes app_def requireAuth_def put_fleet_def
  post_fleet_reset_def get_fleet_def readFleet_def readJson_def assign_def deref_def writeFleet_def js_set_def list_or_me_def
  json_res_def error_body_def error_middleware_def Let_def

section \<open>The session guard (C1)\<close>

text \<open>
  Claim C1 says that every request to one of the five guarded routes whose session does not
  carry the admin flag is answered with status 401. The JSON body parser stands before the
  guard, so a request without the flag whose body is a JSON string is answered by the
  parser's error, with status 400.
\<close>

theorem unauthorized_string_body_counterexample:
  "admin (session started) \<noteq> Some True
   \<and> http example_env (Some (JStr ''abc'')) (PutFleet (Some (JStr ''en''))) started
     = (\<lparr>status = 400,
         body = JObj [(''error'', JStr ''Unexpected token in JSON at position 0'')]\<rparr>,
        started)"
  by (simp add: started_eq http_def express_json_def example_env_def error_middleware_def
      json_res_def error_body_def)

text \<open>
  Claim C1, amended. Take a request to \<^verbatim>\<open>PUT /api/fleet\<close>,
  \<^verbatim>\<open>POST /api/fleet/reset\<close>, \<^verbatim>\<open>PUT /api/gallery\<close>, \<^verbatim>\<open>POST /api/gallery/reset\<close>
  or \<^verbatim>\<open>POST /api/upload\<close> whose session does not carry the admin flag set to true. In
  every case the whole state stays as it was: both live files, both default documents, the
  upload directory, the session, and the count of file writes. When the request has no JSON
  body, or its JSON body is an array or an object, the answer is status 401 with the body
  \<^verbatim>\<open>{"error": "Unauthorized"}\<close>. When its JSON body is any other value, the body parser
  refuses it before the guard is asked, and the answer is status 400 with the parser's
  message. The last conjunct says that the guard never calls what comes after it, whatever
  that is.
\<close>

theorem unauthorized_request_rejected:
  assumes "admin (session st) \<noteq> Some True"
  shows "(\<forall>to_route \<in> {PutFleet q, (\<lambda>b. PostFleetReset q), PutGallery q,
                        (\<lambda>b. PostGalleryReset q), (\<lambda>b. PostUpload file_part)}.
            snd (http e sent to_route st) = st
          \<and> (sent = None \<or> (\<exists>xs. sent = Some (JArr xs)) \<or> (\<exists>kvs. sent = Some (JObj kvs)) \<longrightarrow>
               fst (http e sent to_route st) = json_res 401 (error_body ''Unauthorized''))
          \<and> (\<forall>v. sent = Some v \<and> (\<forall>xs. v \<noteq> JArr xs) \<and> (\<forall>kvs. v \<noteq> JObj kvs) \<longrightarrow>
               fst (http e sent to_route st)
                 = json_res 400 (error_body (if strict_message e v \<noteq> [] then strict_message e v
                                             else ''Bad request''))))
       \<and> requireAuth st next = (Inr (json_res 401 (error_body ''Unauthorized'')), st)"
proof -
  have guard: "app e (to_route b) st = (json_res 401 (error_body ''Unauthorized''), st)"
    if "to_route \<in> {PutFleet q, (\<lambda>b. PostFleetReset q), PutGallery q,
                      (\<lambda>b. PostGalleryReset q), (\<lambda>b. PostUpload file_part)}"
    for to_route b
    using that assms by (auto simp: app_def requireAuth_def)
  note accepted = http_accepted [of sent e _ st]
  note refused = http_refused [of _ e _ st]
  have either: "snd (http e sent to_route st) = st"
    if "to_route \<in> {PutFleet q, (\<lambda>b. PostFleetReset q), PutGallery q,
                      (\<lambda>b. PostGalleryReset q), (\<lambda>b. PostUpload file_part)}"
    for to_route
  proof (cases "sent = None \<or> (\<exists>xs. sent = Some (JArr xs)) \<or> (\<exists>kvs. sent = Some (JObj kvs))")
    case True
    then show ?thesis using accepted [OF True] guard [OF that] by simp
  next
    case False
    then obtain v where "sent = Some v" "\<forall>xs. v \<noteq> JArr xs" "\<forall>kvs. v \<noteq> JObj kvs"
      by (cases sent) auto
    then show ?thesis using refused [of v to_route] by simp
  qed
  have last: "requireAuth st next = (Inr (json_res 401 (error_body ''Unauthorized'')), st)"
    using assms by (simp add: requireAuth_def)
  show ?thesis
    apply (rule conjI)
     apply (rule ballI)
     apply (rule conjI)
      apply (erule either)
     apply (rule conjI)
      apply (rule impI)
      apply (simp only: accepted guard fst_conv)
     apply (rule allI)
     apply (rule impI)
     apply (elim conjE)
     apply (simp add: refused)
    apply (rule last)
    done
qed

theorem unauthorized_request_rejected_witness:
  "admin (session started) \<noteq> Some True
   \<and> http example_env (Some car_a) (PutFleet (Some (JStr ''en''))) started
       = (\<lparr>status = 401, body = JObj [(''error'', JStr ''Unauthorized'')]\<rparr>, started)
   \<and> http example_env None (\<lambda>b. PostUpload (Some png_file)) started
       = (\<lparr>status = 401, body = JObj [(''error'', JStr ''Unauthorized'')]\<rparr>, started)
   \<and> http example_env (Some (JNum ''7'')) (\<lambda>b. PostGalleryReset None) started
       = (\<lparr>status = 400,
           body = JObj [(''error'', JStr ''Unexpected token in JSON at position 0'')]\<rparr>,
          started)"
proof -
  have unauth: "admin (session started) \<noteq> Some True"
    by (simp add: started_eq)
  note a = unauthorized_request_rejected
      [OF unauth, of "Some (JStr ''en'')" "Some png_file" example_env "Some car_a"]
  note b = unauthorized_request_rejected
      [OF unauth, of None "Some png_file" example_env None]
  note c = unauthorized_request_rejected
      [OF unauth, of None "Some png_file" example_env "Some (JNum ''7'')"]
  have 1: "http example_env (Some car_a) (PutFleet (Some (JStr ''en''))) started
             = (\<lparr>status = 401, body = JObj [(''error'', JStr ''Unauthorized'')]\<rparr>, started)"
    using a by (simp add: car_a_def prod_eq_iff json_res_def error_body_def)
  have 2: "http example_env None (\<lambda>b. PostUpload (Some png_file)) started
             = (\<lparr>status = 401, body = JObj [(''error'', JStr ''Unauthorized'')]\<rparr>, started)"
    using b by (simp add: prod_eq_iff json_res_def error_body_def)
  have 3: "http example_env (Some (JNum ''7'')) (\<lambda>b. PostGalleryReset None) started
             = (\<lparr>status = 400,
                 body = JObj [(''error'', JStr ''Unexpected token in JSON at position 0'')]\<rparr>,
                started)"
    using c by (simp add: prod_eq_iff json_res_def error_body_def example_env_def)
  show ?thesis using unauth 1 2 3 by simp
qed

section \<open>Reading a list (C4)\<close>

text \<open>
  Claim C4 says that a list request returns the list at the requested language if there is
  one, otherwise the \<^verbatim>\<open>me\<close> list, otherwise an empty sequence. When the document holds
  something at \<^verbatim>\<open>me\<close> that is not a list, the route returns that value as it is: for
  a live file \<^verbatim>\<open>{"me": "abc"}\<close> and the language \<^verbatim>\<open>en\<close> the body is the string
  \<^verbatim>\<open>"abc"\<close>, neither a list nor empty.
\<close>

theorem list_returns_non_list_counterexample:
  "fleet_json me_is_text = Holds [(''me'', JStr ''abc'')]
   \<and> \<not> isArray (Some (JStr ''abc''))
   \<and> http example_env None (\<lambda>b. GetFleet (Some (JStr ''en''))) me_is_text
     = (\<lparr>status = 200, body = JStr ''abc''\<rparr>, me_is_text)"
  by (simp add: me_is_text_def started_eq isArray_def http_def express_json_def app_def
      get_fleet_def readFleet_def readJson_def deref_def list_or_me_def json_res_def)

text \<open>
  Claim C4, amended. The requested language \<open>lang\<close> of \<^verbatim>\<open>GET /api/fleet\<close> or
  \<^verbatim>\<open>GET /api/gallery\<close> is the \<^verbatim>\<open>lang\<close> query parameter without the white space
  around it, and \<^verbatim>\<open>me\<close> when the parameter is absent, not a string, or blank. The
  document read is the content of the live file when that holds a document, and the default
  document in memory when the live file cannot be read. Nothing changes, whatever the
  request. A request without a JSON body, as a \<^verbatim>\<open>GET\<close> usually is, or with one that the
  body parser accepts, is answered with status 200, never with an error. The body of the
  answer is the document's value at \<open>lang\<close> when that is a list; otherwise the document's
  value at \<^verbatim>\<open>me\<close> when that is truthy, list or not; otherwise the empty list. Only a
  request that carries a JSON body the parser refuses is answered with an error, the
  parser's, with status 400. The last conjunct says that a key's value in a document read
  from a file is what the file holds there.
\<close>

theorem list_returns_language_or_me:
  assumes "lang = (case q of Some (JStr s) \<Rightarrow> if trim s = [] then ''me'' else trim s
                   | _ \<Rightarrow> ''me'')"
  shows "(\<forall>(to_route, file, defaults) \<in> {((\<lambda>b. GetFleet q), fleet_json st, defaultFleet st),
                                          ((\<lambda>b. GetGallery q), gallery_json st, defaultGallery st)}.
          \<forall>data. data = (case file of Holds d \<Rightarrow> parsed d | _ \<Rightarrow> defaults) \<longrightarrow>
            snd (http e sent to_route st) = st
          \<and> (sent = None \<or> (\<exists>xs. sent = Some (JArr xs)) \<or> (\<exists>kvs. sent = Some (JObj kvs)) \<longrightarrow>
               status (fst (http e sent to_route st)) = 200
             \<and> (\<forall>xs. js_get data lang = Some (JArr xs) \<longrightarrow>
                  body (fst (http e sent to_route st)) = JArr xs)
             \<and> (\<not> isArray (js_get data lang) \<and> truthy (js_get data ''me'') \<longrightarrow>
                  Some (body (fst (http e sent to_route st))) = js_get data ''me'')
             \<and> (\<not> isArray (js_get data lang) \<and> \<not> truthy (js_get data ''me'') \<longrightarrow>
                  body (fst (http e sent to_route st)) = JArr []))
          \<and> (\<forall>v. sent = Some v \<and> (\<forall>xs. v \<noteq> JArr xs) \<and> (\<forall>kvs. v \<noteq> JObj kvs) \<longrightarrow>
               fst (http e sent to_route st)
                 = json_res 400 (error_body (if strict_message e v \<noteq> [] then strict_message e v
                                             else ''Bad request''))))
       \<and> js_get (parsed d) k = map_of d k"
proof -
  let ?accepted = "sent = None \<or> (\<exists>xs. sent = Some (JArr xs)) \<or> (\<exists>kvs. sent = Some (JObj kvs))"
  let ?fleet = "case fleet_json st of Holds d \<Rightarrow> parsed d | _ \<Rightarrow> defaultFleet st"
  let ?gallery = "case gallery_json st of Holds d \<Rightarrow> parsed d | _ \<Rightarrow> defaultGallery st"
  have "trim ''me'' = ''me''"
    by (simp add: trim_def is_ws_def)
  then have lang: "getLang q = lang"
    unfolding assms getLang_def by (simp add: Let_def split: option.splits json.splits)
  have body_cases:
    "(\<forall>xs. js_get data lang = Some (JArr xs) \<longrightarrow> list_or_me data lang = JArr xs)
     \<and> (\<not> isArray (js_get data lang) \<and> truthy (js_get data ''me'') \<longrightarrow>
          Some (list_or_me data lang) = js_get data ''me'')
     \<and> (\<not> isArray (js_get data lang) \<and> \<not> truthy (js_get data ''me'') \<longrightarrow>
          list_or_me data lang = JArr [])" for data
    by (auto simp: list_or_me_def isArray_def split: option.splits json.splits)
  have fleet: "app e (GetFleet q) st = (json_res 200 (list_or_me ?fleet lang), st)"
    by (simp add: app_def get_fleet_def lang readFleet_def readJson_def deref_def
        split: disk_file.splits)
  have gallery: "app e (GetGallery q) st = (json_res 200 (list_or_me ?gallery lang), st)"
    by (simp add: app_def get_gallery_def lang readGallery_def readJson_def deref_def
        split: disk_file.splits)
  have unchanged: "snd (http e sent (\<lambda>b. GetFleet q) st) = st"
    "snd (http e sent (\<lambda>b. GetGallery q) st) = st"
    by (simp_all add: http_def fleet gallery split: sum.splits)
  have f: "status (fst (http e sent (\<lambda>b. GetFleet q) st)) = 200
         \<and> body (fst (http e sent (\<lambda>b. GetFleet q) st)) = list_or_me ?fleet lang"
    if ?accepted
    by (simp add: http_accepted [OF that] fleet json_res_def)
  have g: "status (fst (http e sent (\<lambda>b. GetGallery q) st)) = 200
         \<and> body (fst (http e sent (\<lambda>b. GetGallery q) st)) = list_or_me ?gallery lang"
    if ?accepted
    by (simp add: http_accepted [OF that] gallery json_res_def)
  have refused: "fst (http e sent to_route st)
                   = json_res 400 (error_body (if strict_message e v \<noteq> [] then strict_message e v
                                               else ''Bad request''))"
    if "sent = Some v" "\<forall>xs. v \<noteq> JArr xs" "\<forall>kvs. v \<noteq> JObj kvs" for v to_route
    using that by (simp add: http_refused)
  have one: "snd (http e sent (\<lambda>b. GetFleet q) st) = st
          \<and> (?accepted \<longrightarrow>
               status (fst (http e sent (\<lambda>b. GetFleet q) st)) = 200
             \<and> (\<forall>xs. js_get ?fleet lang = Some (JArr xs) \<longrightarrow>
                  body (fst (http e sent (\<lambda>b. GetFleet q) st)) = JArr xs)
             \<and> (\<not> isArray (js_get ?fleet lang) \<and> truthy (js_get ?fleet ''me'') \<longrightarrow>
                  Some (body (fst (http e sent (\<lambda>b. GetFleet q) st))) = js_get ?fleet ''me'')
             \<and> (\<not> isArray (js_get ?fleet lang) \<and> \<not> truthy (js_get ?fleet ''me'') \<longrightarrow>
                  body (fst (http e sent (\<lambda>b. GetFleet q) st)) = JArr []))"
    using unchanged(1) f body_cases [of ?fleet] by simp
  have two: "snd (http e sent (\<lambda>b. GetGallery q) st) = st
          \<and> (?accepted \<longrightarrow>
               status (fst (http e sent (\<lambda>b. GetGallery q) st)) = 200
             \<and> (\<forall>xs. js_get ?gallery lang = Some (JArr xs) \<longrightarrow>
                  body (fst (http e sent (\<lambda>b. GetGallery q) st)) = JArr xs)
             \<and> (\<not> isArray (js_get ?gallery lang) \<and> truthy (js_get ?gallery ''me'') \<longrightarrow>
                  Some (body (fst (http e sent (\<lambda>b. GetGallery q) st))) = js_get ?gallery ''me'')
             \<and> (\<not> isArray (js_get ?gallery lang) \<and> \<not> truthy (js_get ?gallery ''me'') \<longrightarrow>
                  body (fst (http e sent (\<lambda>b. GetGallery q) st)) = JArr []))"
    using unchanged(2) g body_cases [of ?gallery] by simp
  show ?thesis
    using one two refused by simp
qed

theorem list_returns_language_or_me_witness:
  "http example_env None (\<lambda>b. GetFleet (Some (JStr '' en ''))) two_languages
     = (\<lparr>status = 200,
         body = JArr [JObj [(''id'', JStr ''e1''), (''title'', JStr ''English car'')]]\<rparr>,
        two_languages)
   \<and> http example_env None (\<lambda>b. GetFleet (Some (JStr ''fr''))) two_languages
     = (\<lparr>status = 200,
         body = JArr [JObj [(''id'', JStr ''d1''), (''title'', JStr ''Default car'')]]\<rparr>,
        two_languages)
   \<and> http example_env None (\<lambda>b. GetFleet None) started_unreadable
     = (\<lparr>status = 200,
         body = JArr [JObj [(''id'', JStr ''d1''), (''title'', JStr ''Default car'')]]\<rparr>,
        started_unreadable)
   \<and> http example_env None (\<lambda>b. GetGallery (Some (JStr ''en''))) bare
     = (\<lparr>status = 200, body = JArr []\<rparr>, bare)
   \<and> http example_env None (\<lambda>b. GetFleet (Some (JStr ''en''))) me_is_text
     = (\<lparr>status = 200, body = JStr ''abc''\<rparr>, me_is_text)
   \<and> http example_env (Some (JBool True)) (\<lambda>b. GetFleet (Some (JStr ''en''))) two_languages
     = (\<lparr>status = 400,
         body = JObj [(''error'', JStr ''Unexpected token in JSON at position 0'')]\<rparr>,
        two_languages)"
proof -
  let ?me = "[JObj [(''id'', JStr ''d1''), (''title'', JStr ''Default car'')]]"
  let ?en = "[JObj [(''id'', JStr ''e1''), (''title'', JStr ''English car'')]]"
  have two: "fleet_json two_languages = Holds [(''me'', JArr ?me), (''en'', JArr ?en)]"
    by (simp add: two_languages_def started_eq fleet_defaults_def)
  have unreadable: "fleet_json started_unreadable = Unreadable"
    "defaultFleet started_unreadable = parsed [(''me'', JArr ?me)]"
    by (simp_all add: started_unreadable_eq fleet_defaults_def)
  have empty: "gallery_json bare = Holds []"
    by (simp add: bare_eq)
  have odd: "fleet_json me_is_text = Holds [(''me'', JStr ''abc'')]"
    by (simp add: me_is_text_def started_eq)
  have en: "''en'' = (case Some (JStr '' en '') of
                        Some (JStr s) \<Rightarrow> if trim s = [] then ''me'' else trim s | _ \<Rightarrow> ''me'')"
    "''en'' = (case Some (JStr ''en'') of
                 Some (JStr s) \<Rightarrow> if trim s = [] then ''me'' else trim s | _ \<Rightarrow> ''me'')"
    and fr: "''fr'' = (case Some (JStr ''fr'') of
                         Some (JStr s) \<Rightarrow> if trim s = [] then ''me'' else trim s | _ \<Rightarrow> ''me'')"
    and me: "''me'' = (case None of
                         Some (JStr s) \<Rightarrow> if trim s = [] then ''me'' else trim s | _ \<Rightarrow> ''me'')"
    by (simp_all add: trim_def is_ws_def)
  note a = list_returns_language_or_me
      [OF en(1), of two_languages example_env None "[]" "[]"]
  note b = list_returns_language_or_me [OF fr, of two_languages example_env None "[]" "[]"]
  note c = list_returns_language_or_me [OF me, of started_unreadable example_env None "[]" "[]"]
  note d = list_returns_language_or_me [OF en(2), of bare example_env None "[]" "[]"]
  note e = list_returns_language_or_me [OF en(2), of me_is_text example_env None "[]" "[]"]
  note f = list_returns_language_or_me
      [OF en(2), of two_languages example_env "Some (JBool True)" "[]" "[]"]
  have 1: "http example_env None (\<lambda>b. GetFleet (Some (JStr '' en ''))) two_languages
             = (\<lparr>status = 200, body = JArr ?en\<rparr>, two_languages)"
    using a by (simp add: two prod_eq_iff response.equality)
  have 2: "http example_env None (\<lambda>b. GetFleet (Some (JStr ''fr''))) two_languages
             = (\<lparr>status = 200, body = JArr ?me\<rparr>, two_languages)"
    using b by (simp add: two prod_eq_iff isArray_def response.equality)
  have 3: "http example_env None (\<lambda>b. GetFleet None) started_unreadable
             = (\<lparr>status = 200, body = JArr ?me\<rparr>, started_unreadable)"
    using c by (simp add: unreadable prod_eq_iff response.equality)
  have 4: "http example_env None (\<lambda>b. GetGallery (Some (JStr ''en''))) bare
             = (\<lparr>status = 200, body = JArr []\<rparr>, bare)"
    using d by (simp add: empty prod_eq_iff isArray_def response.equality)
  have 5: "http example_env None (\<lambda>b. GetFleet (Some (JStr ''en''))) me_is_text
             = (\<lparr>status = 200, body = JStr ''abc''\<rparr>, me_is_text)"
    using e by (simp add: odd prod_eq_iff isArray_def response.equality)
  have 6: "http example_env (Some (JBool True)) (\<lambda>b. GetFleet (Some (JStr ''en'')))
             two_languages
             = (\<lparr>status = 400,
                 body = JObj [(''error'', JStr ''Unexpected token in JSON at position 0'')]\<rparr>,
                two_languages)"
    using f by (simp add: prod_eq_iff json_res_def error_body_def example_env_def)
  show ?thesis using 1 2 3 4 5 6 by simp
qed

section \<open>The password check (C5)\<close>

text \<open>
  Claim C5. For every submitted password, \<^verbatim>\<open>verifyPassword\<close> answers as follows. When a
  hash credential is configured (set and not empty), the answer is that of
  \<^verbatim>\<open>bcrypt.compareSync\<close> on the password and the hash, whatever the plaintext credential
  is. When no hash is configured and a plaintext credential is, the answer is whether the
  password equals it. When neither is configured, the answer is false.
\<close>

theorem verifyPassword_precedence:
  "(ADMIN_PASSWORD_HASH e = Some h \<and> h \<noteq> [] \<longrightarrow>
      verifyPassword e password = compareSync e password h)
   \<and> ((ADMIN_PASSWORD_HASH e = None \<or> ADMIN_PASSWORD_HASH e = Some [])
        \<and> ADMIN_PASSWORD e = Some p \<and> p \<noteq> [] \<longrightarrow>
      verifyPassword e password = (password = p))
   \<and> ((ADMIN_PASSWORD_HASH e = None \<or> ADMIN_PASSWORD_HASH e = Some [])
        \<and> (ADMIN_PASSWORD e = None \<or> ADMIN_PASSWORD e = Some []) \<longrightarrow>
      \<not> verifyPassword e password)"
  by (auto simp: verifyPassword_def split: option.splits list.splits)

theorem verifyPassword_precedence_witness:
  "ADMIN_PASSWORD_HASH hashed_env = Some ''$2a$10$hash''
   \<and> ADMIN_PASSWORD hashed_env = Some ''secret''
   \<and> verifyPassword hashed_env ''hunter2'' \<and> \<not> verifyPassword hashed_env ''secret''
   \<and> ADMIN_PASSWORD_HASH example_env = None \<and> ADMIN_PASSWORD example_env = Some ''secret''
   \<and> verifyPassword example_env ''secret'' \<and> \<not> verifyPassword example_env ''Secret''
   \<and> ADMIN_PASSWORD_HASH unconfigured_env = None \<and> ADMIN_PASSWORD unconfigured_env = None
   \<and> \<not> verifyPassword unconfigured_env ''secret''"
  using verifyPassword_precedence [of hashed_env "''$2a$10$hash''" "''hunter2''" "''secret''"]
    verifyPassword_precedence [of hashed_env "''$2a$10$hash''" "''secret''" "''secret''"]
    verifyPassword_precedence [of example_env "''x''" "''secret''" "''secret''"]
    verifyPassword_precedence [of example_env "''x''" "''Secret''" "''secret''"]
    verifyPassword_precedence [of unconfigured_env "''x''" "''secret''" "''secret''"]
  by (simp add: hashed_env_def example_env_def unconfigured_env_def)

section \<open>Login (C6)\<close>

text \<open>
  Claim C6 says that every password for which verification fails, the empty one included,
  makes \<^verbatim>\<open>POST /api/auth/login\<close> fail with status 401. The route tests for a missing
  password before it verifies anything: the empty password is answered with 400.
\<close>

theorem login_empty_password_counterexample:
  "\<not> verifyPassword example_env []
   \<and> app example_env (PostLogin (Some (JObj [(''password'', JStr [])]))) started
     = (\<lparr>status = 400, body = JObj [(''error'', JStr ''Missing password'')]\<rparr>, started)
   \<and> status (fst (app example_env (PostLogin (Some (JObj [(''password'', JStr [])]))) started))
     \<noteq> 401"
  by (simp add: app_def post_login_def verifyPassword_def example_env_def json_res_def
      error_body_def)

text \<open>
  Claim C6, amended. For a password that is a non-empty string: if \<^verbatim>\<open>verifyPassword\<close>
  accepts it, login answers 200 with \<^verbatim>\<open>{"ok": true}\<close>, sets the admin flag of the
  session, and a following \<^verbatim>\<open>GET /api/auth/me\<close> reports \<^verbatim>\<open>authed\<close> true; if not,
  login answers 401 and leaves the state as it was. A password that is empty or not a string
  is answered with 400, "Missing password", and the state stays as it was, whatever
  verification would say. A session without the flag is reported as \<^verbatim>\<open>authed\<close> false,
  so after a failed login of such a session \<^verbatim>\<open>/me\<close> still reports false.
\<close>

theorem login_outcomes:
  "(field b ''password'' = Some (JStr password) \<and> password \<noteq> []
      \<and> verifyPassword e password \<longrightarrow>
        app e (PostLogin b) st
          = (json_res 200 (JObj [(''ok'', JBool True)]),
             st\<lparr>session := (session st)\<lparr>admin := Some True\<rparr>\<rparr>)
      \<and> fst (app e GetMe (snd (app e (PostLogin b) st)))
          = json_res 200 (JObj [(''authed'', JBool True)]))
   \<and> (field b ''password'' = Some (JStr password) \<and> password \<noteq> []
      \<and> \<not> verifyPassword e password \<longrightarrow>
        app e (PostLogin b) st = (json_res 401 (error_body ''Invalid password''), st))
   \<and> (field b ''password'' = Some (JStr []) \<or> (\<forall>s. field b ''password'' \<noteq> Some (JStr s)) \<longrightarrow>
        app e (PostLogin b) st = (json_res 400 (error_body ''Missing password''), st))
   \<and> (admin (session st) \<noteq> Some True \<longrightarrow>
        fst (app e GetMe st) = json_res 200 (JObj [(''authed'', JBool False)]))"
  by (auto simp: app_def post_login_def get_me_def split: option.splits json.splits)

theorem login_outcomes_witness:
  "verifyPassword example_env ''secret''
   \<and> app example_env (PostLogin (Some (JObj [(''password'', JStr ''secret'')]))) started
      = (\<lparr>status = 200, body = JObj [(''ok'', JBool True)]\<rparr>, logged_in)
   \<and> fst (app example_env GetMe logged_in)
      = \<lparr>status = 200, body = JObj [(''authed'', JBool True)]\<rparr>
   \<and> \<not> verifyPassword example_env ''guess''
   \<and> app example_env (PostLogin (Some (JObj [(''password'', JStr ''guess'')]))) started
      = (\<lparr>status = 401, body = JObj [(''error'', JStr ''Invalid password'')]\<rparr>, started)
   \<and> app example_env (PostLogin (Some (JObj [(''password'', JNum ''7'')]))) started
      = (\<lparr>status = 400, body = JObj [(''error'', JStr ''Missing password'')]\<rparr>, started)
   \<and> admin (session started) \<noteq> Some True
   \<and> fst (app example_env GetMe started)
      = \<lparr>status = 200, body = JObj [(''authed'', JBool False)]\<rparr>"
proof -
  have v: "verifyPassword example_env ''secret''" "\<not> verifyPassword example_env ''guess''"
    by (simp_all add: verifyPassword_def example_env_def)
  have s: "started\<lparr>session := (session started)\<lparr>admin := Some True\<rparr>\<rparr> = logged_in"
    by (simp add: logged_in_eq started_eq)
  note a = login_outcomes [of "Some (JObj [(''password'', JStr ''secret'')])" "''secret''"
      example_env started]
  note b = login_outcomes [of "Some (JObj [(''password'', JStr ''guess'')])" "''guess''"
      example_env started]
  note c = login_outcomes [of "Some (JObj [(''password'', JNum ''7'')])" "''x''"
      example_env started]
  have 1: "app example_env (PostLogin (Some (JObj [(''password'', JStr ''secret'')]))) started
      = (\<lparr>status = 200, body = JObj [(''ok'', JBool True)]\<rparr>, logged_in)"
    using a v by (simp add: s json_res_def)
  have 2: "fst (app example_env GetMe logged_in)
      = \<lparr>status = 200, body = JObj [(''authed'', JBool True)]\<rparr>"
    using a v by (simp add: 1 json_res_def)
  have 3: "app example_env (PostLogin (Some (JObj [(''password'', JStr ''guess'')]))) started
      = (\<lparr>status = 401, body = JObj [(''error'', JStr ''Invalid password'')]\<rparr>, started)"
    using b v by (simp add: json_res_def error_body_def)
  have 4: "app example_env (PostLogin (Some (JObj [(''password'', JNum ''7'')]))) started
      = (\<lparr>status = 400, body = JObj [(''error'', JStr ''Missing password'')]\<rparr>, started)"
    using c by (simp add: json_res_def error_body_def)
  have 5: "admin (session started) \<noteq> Some True" by (simp add: started_eq)
  have 6: "fst (app example_env GetMe started)
      = \<lparr>status = 200, body = JObj [(''authed'', JBool False)]\<rparr>"
    using c 5 by (simp add: json_res_def)
  show ?thesis using v 1 2 3 4 5 6 by simp
qed

section \<open>A failing write (C7)\<close>

text \<open>
  Claim C7 says that a write of the live document that throws reaches the caller as a generic
  server error, status 500, with a body that exposes no internal path. The error middleware
  answers every error it is given with status 400 and the error's own message; the message of
  a file-system error is the one the runtime made, path included.
\<close>

theorem write_failure_counterexample:
  "write_error readonly_disk_env
     = Some ''EACCES: permission denied, open /srv/tuo/server/data/fleet.json''
   \<and> fst (app readonly_disk_env (PostFleetReset (Some (JStr ''me''))) logged_in)
     = \<lparr>status = 400,
        body = JObj [(''error'',
          JStr ''EACCES: permission denied, open /srv/tuo/server/data/fleet.json'')]\<rparr>
   \<and> status (fst (app readonly_disk_env (PostFleetReset (Some (JStr ''me''))) logged_in))
     \<noteq> 500"
  by (simp add: app_def requireAuth_def post_fleet_reset_def readFleet_def readJson_def
      assign_def deref_def writeFleet_def readonly_disk_env_def example_env_def logged_in_eq
      error_middleware_def json_res_def error_body_def Let_def)

lemma failed_write_route:
  assumes "write_error e = Some m" and "fs_writes (snd (route e req st)) \<noteq> fs_writes st"
  shows "fst (route e req st) = Inl (Error m)
       \<and> fs_writes (snd (route e req st)) = Suc (fs_writes st)
       \<and> fleet_json (snd (route e req st)) = fleet_json st
       \<and> gallery_json (snd (route e req st)) = gallery_json st"
proof (cases req)
  case (PutFleet q b)
  then show ?thesis using assms
    by (auto simp: requireAuth_def put_fleet_def assign_def writeFleet_def Let_def
        split: reference.splits option.splits if_splits)
next
  case (PostFleetReset q)
  then show ?thesis using assms
    by (auto simp: requireAuth_def post_fleet_reset_def assign_def writeFleet_def Let_def
        split: reference.splits if_splits)
next
  case (PutGallery q b)
  then show ?thesis using assms
    by (auto simp: requireAuth_def put_gallery_def assign_def writeGallery_def Let_def
        split: reference.splits option.splits if_splits)
next
  case (PostGalleryReset q)
  then show ?thesis using assms
    by (auto simp: requireAuth_def post_gallery_reset_def assign_def writeGallery_def Let_def
        split: reference.splits if_splits)
next
  case (PostUpload part)
  then show ?thesis using assms
    by (auto simp: requireAuth_def post_upload_def upload_single_def Let_def
        split: option.splits sum.splits bool.splits if_splits)
qed (use assms in \<open>auto simp: post_login_def get_me_def post_logout_def get_fleet_def
      get_gallery_def Let_def split: if_splits\<close>)

lemma authenticated_reset_writes:
  assumes "admin (session st) = Some True"
  shows "fs_writes (snd (route e (PostFleetReset q) st)) = Suc (fs_writes st)"
    and "fs_writes (snd (route e (PostGalleryReset q) st)) = Suc (fs_writes st)"
  using assms
  by (auto simp: requireAuth_def post_fleet_reset_def post_gallery_reset_def assign_def
      writeFleet_def writeGallery_def Let_def split: reference.splits option.splits)

lemma authenticated_replace_writes:
  assumes "admin (session st) = Some True"
  shows "map_index (normalizeVehicle (now e)) (payload_of b) 0 \<noteq> None \<Longrightarrow>
           fs_writes (snd (route e (PutFleet q b) st)) = Suc (fs_writes st)"
    and "map_index (normalizeGalleryItem (now e)) (payload_of b) 0 \<noteq> None \<Longrightarrow>
           fs_writes (snd (route e (PutGallery q b) st)) = Suc (fs_writes st)"
  using assms
  by (auto simp: requireAuth_def put_fleet_def put_gallery_def assign_def
      writeFleet_def writeGallery_def Let_def split: reference.splits option.splits)

text \<open>
  Claim C7, amended. Where \<^verbatim>\<open>fs.writeFileSync\<close> throws an error with message \<open>m\<close>,
  every request that calls it ends in the error middleware: the answer is status 400 with the
  body \<^verbatim>\<open>{"error": m}\<close> ("Bad request" in place of an empty message), and the
  write was called exactly once (no retry). The requests that call it are the authenticated
  resets and the authenticated replaces whose records can all be normalized.
\<close>

theorem write_failure_surfaced:
  assumes "write_error e = Some m"
  shows "(fs_writes (snd (app e req st)) \<noteq> fs_writes st \<longrightarrow>
            fst (app e req st)
              = json_res 400 (error_body (if m \<noteq> [] then m else ''Bad request''))
          \<and> fs_writes (snd (app e req st)) = Suc (fs_writes st))
       \<and> (admin (session st) = Some True \<longrightarrow>
            fs_writes (snd (app e (PostFleetReset q) st)) \<noteq> fs_writes st
          \<and> fs_writes (snd (app e (PostGalleryReset q) st)) \<noteq> fs_writes st
          \<and> (map_index (normalizeVehicle (now e)) (payload_of b) 0 \<noteq> None \<longrightarrow>
               fs_writes (snd (app e (PutFleet q b) st)) \<noteq> fs_writes st)
          \<and> (map_index (normalizeGalleryItem (now e)) (payload_of b) 0 \<noteq> None \<longrightarrow>
               fs_writes (snd (app e (PutGallery q b) st)) \<noteq> fs_writes st))"
proof -
  have "fs_writes (snd (route e req st)) \<noteq> fs_writes st \<Longrightarrow>
          fst (app e req st) = error_middleware (Some (Error m))"
    using failed_write_route [OF assms] fst_app_Inl by blast
  then show ?thesis
    using failed_write_route [OF assms, of req st]
      authenticated_reset_writes [of st e q] authenticated_replace_writes [of st e b q]
    by (simp add: snd_app error_middleware_def)
qed

theorem write_failure_surfaced_witness:
  "write_error readonly_disk_env
     = Some ''EACCES: permission denied, open /srv/tuo/server/data/fleet.json''
   \<and> admin (session logged_in) = Some True
   \<and> map_index (normalizeVehicle (now readonly_disk_env)) (payload_of (Some car_a)) 0 \<noteq> None
   \<and> app readonly_disk_env (PutFleet (Some (JStr ''en'')) (Some car_a)) logged_in
     = (\<lparr>status = 400,
         body = JObj [(''error'',
           JStr ''EACCES: permission denied, open /srv/tuo/server/data/fleet.json'')]\<rparr>,
        logged_in\<lparr>fs_writes := 1\<rparr>)"
proof -
  let ?m = "''EACCES: permission denied, open /srv/tuo/server/data/fleet.json''"
  let ?req = "PutFleet (Some (JStr ''en'')) (Some car_a)"
  have w: "write_error readonly_disk_env = Some ?m"
    by (simp add: readonly_disk_env_def example_env_def)
  have n: "map_index (normalizeVehicle (now readonly_disk_env)) (payload_of (Some car_a)) 0
             = Some [JObj [(''id'', JStr ''custom-1700000000000-0''), (''tag'', JStr []),
                 (''title'', JStr ''Car A''), (''text'', JStr []), (''price'', JStr []),
                 (''image'', JStr []), (''alt'', JStr ''Car A''), (''fuel'', JStr []),
                 (''transmission'', JStr []), (''consumption'', JStr []),
                 (''passengers'', JStr [])]]"
    by (simp add: readonly_disk_env_def example_env_def payload_of_def car_a_def
        normalizeVehicle_def safeString_def trim_def is_ws_def show_int_now show_nat_0)
  have a: "admin (session logged_in) = Some True" by (simp add: logged_in_eq)
  note t = write_failure_surfaced [OF w, of ?req logged_in "Some (JStr ''en'')" "Some car_a"]
  have rest: "snd (app readonly_disk_env ?req logged_in) = logged_in\<lparr>fs_writes := 1\<rparr>"
    by (simp add: snd_app requireAuth_def put_fleet_def n readFleet_def readJson_def assign_def
        deref_def writeFleet_def w logged_in_eq Let_def)
  have "fst (app readonly_disk_env ?req logged_in)
          = \<lparr>status = 400, body = JObj [(''error'', JStr ?m)]\<rparr>"
    using t a n by (simp add: json_res_def error_body_def)
  then show ?thesis using w a n rest by (simp add: prod_eq_iff)
qed

section \<open>Uploads (C9)\<close>




section \<open>What the normalizers return\<close>

lemma last_dropWhile_eq: "dropWhile P xs \<noteq> [] \<Longrightarrow> last (dropWhile P xs) = last xs"
  by (induction xs) (auto split: if_splits)

lemma trimmed_trim: "trimmed (trim s)"
proof -
  let ?t = "dropWhile is_ws s"
  let ?u = "dropWhile is_ws (rev ?t)"
  show ?thesis
  proof (cases "?u = []")
    case True
    then show ?thesis by (simp add: trimmed_def trim_def)
  next
    case False
    have t: "?t \<noteq> []"
    proof
      assume e: "?t = []"
      have "?u = []" by (simp only: e rev.simps dropWhile.simps)
      with False show False by simp
    qed
    have 1: "\<not> is_ws (hd ?u)" using False by (rule hd_dropWhile)
    have 2: "\<not> is_ws (hd ?t)" using t by (rule hd_dropWhile)
    have "last ?u = last (rev ?t)"
      using False by (rule last_dropWhile_eq)
    then have 3: "last ?u = hd ?t" using t by (simp add: last_rev)
    show ?thesis using False 1 2 3 by (simp add: trimmed_def trim_def hd_rev last_rev)
  qed
qed

lemma less_10_cases:
  "d < 10 \<Longrightarrow>
     d = 0 \<or> d = 1 \<or> d = 2 \<or> d = 3 \<or> d = 4 \<or> d = 5 \<or> d = 6 \<or> d = 7 \<or> d = 8 \<or> d = (9::nat)"
  by arith

lemma digit_inj: "a < 10 \<Longrightarrow> b < 10 \<Longrightarrow> digit a = digit b \<Longrightarrow> a = b"
  using less_10_cases [of a] less_10_cases [of b] by (auto simp: digit_def)

lemma digit_plain: "d < 10 \<Longrightarrow> digit d \<noteq> CHR ''-'' \<and> \<not> is_ws (digit d)"
  using less_10_cases [of d] by (auto simp: digit_def is_ws_def)

lemma show_nat_not_Nil: "show_nat n \<noteq> []"
  by (subst show_nat.simps) simp

lemma show_nat_last: "last (show_nat n) = digit (n mod 10)"
  by (subst show_nat.simps) simp

lemma show_nat_no_dash: "CHR ''-'' \<notin> set (show_nat n)"
proof (induction n rule: show_nat.induct)
  case (1 n)
  show ?case
  proof (cases "n < 10")
    case True
    then show ?thesis using digit_plain [of n] by (subst show_nat.simps) auto
  next
    case False
    then show ?thesis using 1 digit_plain [of "n mod 10"] by (subst show_nat.simps) auto
  qed
qed

lemma show_nat_inj: "show_nat n = show_nat m \<Longrightarrow> n = m"
proof (induction n arbitrary: m rule: show_nat.induct)
  case (1 n)
  show ?case
  proof (cases "n < 10")
    case n: True
    show ?thesis
    proof (cases "m < 10")
      case True
      then show ?thesis using 1(2) n digit_inj [of n m]
        by (simp add: show_nat.simps [of n] show_nat.simps [of m])
    next
      case False
      then show ?thesis using 1(2) n show_nat_not_Nil [of "m div 10"]
        by (simp add: show_nat.simps [of n] show_nat.simps [of m])
    qed
  next
    case n: False
    show ?thesis
    proof (cases "m < 10")
      case True
      then show ?thesis using 1(2) n show_nat_not_Nil [of "n div 10"]
        by (simp add: show_nat.simps [of n] show_nat.simps [of m])
    next
      case False
      then have "show_nat (n div 10) = show_nat (m div 10) \<and> digit (n mod 10) = digit (m mod 10)"
        using 1(2) n by (simp add: show_nat.simps [of n] show_nat.simps [of m])
      then have "n div 10 = m div 10" "n mod 10 = m mod 10"
        using 1(1) [OF n, of "m div 10"] digit_inj [of "n mod 10" "m mod 10"] by auto
      then show ?thesis by (metis div_mult_mod_eq)
    qed
  qed
qed

lemma after_last_dash:
  assumes "a @ CHR ''-'' # d = b @ CHR ''-'' # d'"
      and "CHR ''-'' \<notin> set d" and "CHR ''-'' \<notin> set d'"
  shows "d = d'"
proof -
  have "takeWhile (\<lambda>c. c \<noteq> CHR ''-'') (rev (a @ CHR ''-'' # d)) = rev d"
    using assms(2) by (auto simp: takeWhile_tail)
  moreover have "takeWhile (\<lambda>c. c \<noteq> CHR ''-'') (rev (b @ CHR ''-'' # d')) = rev d'"
    using assms(3) by (auto simp: takeWhile_tail)
  ultimately show ?thesis using assms(1) by (metis rev_is_rev_conv)
qed

lemma generated_id_inj:
  "p @ show_int t @ ''-'' @ show_nat i = p' @ show_int t' @ ''-'' @ show_nat j \<Longrightarrow> i = j"
  using after_last_dash [of "p @ show_int t" "show_nat i" "p' @ show_int t'" "show_nat j"]
    show_nat_no_dash show_nat_inj by auto

lemma safeString_trimmed: "safeString v = Some s \<Longrightarrow> trimmed s"
  by (auto simp: safeString_def trimmed_trim)

lemma trimmed_Vozilo: "trimmed ''Vozilo''"
  by (simp add: trimmed_def is_ws_def)

lemma trimmed_custom: "trimmed (''custom-'' @ t @ ''-'' @ show_nat i)"
  using digit_plain [of "i mod 10"]
  by (simp add: trimmed_def is_ws_def show_nat_not_Nil show_nat_last)

lemma trimmed_gallery: "trimmed (''gallery-'' @ t @ ''-'' @ show_nat i)"
  using digit_plain [of "i mod 10"]
  by (simp add: trimmed_def is_ws_def show_nat_not_Nil show_nat_last)

lemma normalizeVehicle_record:
  assumes "normalizeVehicle clock v i = Some r"
  shows "string_fields vehicle_keys r
       \<and> (\<exists>sid. safeString (field (Some v) ''id'') = Some sid
               \<and> record_id r = (if sid \<noteq> [] then sid
                                 else ''custom-'' @ show_int (clock i) @ ''-'' @ show_nat i))"
  using assms
  unfolding normalizeVehicle_def Let_def
  apply (clarsimp simp: bind_eq_Some_conv string_fields_def vehicle_keys_def
      record_id_def simp del: append.simps)
  apply (auto simp del: append.simps simp: trimmed_custom trimmed_Vozilo
      intro: safeString_trimmed split: if_splits bind_splits)
  done

lemma normalizeGalleryItem_record:
  assumes "normalizeGalleryItem clock v i = Some r"
  shows "string_fields gallery_keys r
       \<and> (\<exists>sid. safeString (field (Some v) ''id'') = Some sid
               \<and> record_id r = (if sid \<noteq> [] then sid
                                 else ''gallery-'' @ show_int (clock i) @ ''-'' @ show_nat i))"
  using assms
  unfolding normalizeGalleryItem_def Let_def
  apply (clarsimp simp: bind_eq_Some_conv string_fields_def gallery_keys_def
      record_id_def simp del: append.simps)
  apply (auto simp del: append.simps simp: trimmed_gallery intro: safeString_trimmed)
  done

lemma map_index_nth:
  "map_index f xs k = Some ys \<Longrightarrow> i < length xs \<Longrightarrow> f (xs ! i) (k + i) = Some (ys ! i)"
proof (induction xs arbitrary: k ys i)
  case Nil
  then show ?case by simp
next
  case (Cons x xs)
  from Cons.prems(1) obtain y ys' where
    y: "f x k = Some y" and ys': "map_index f xs (Suc k) = Some ys'" and ys: "ys = y # ys'"
    by (auto split: bind_splits)
  show ?case
  proof (cases i)
    case 0
    then show ?thesis using y ys by simp
  next
    case (Suc n)
    then have "f (xs ! n) (Suc k + n) = Some (ys' ! n)"
      using Cons.IH [OF ys', of n] Cons.prems(2) by simp
    then show ?thesis using Suc ys by simp
  qed
qed

lemma batch_properties:
  assumes f: "\<And>v i r. f v i = Some r \<Longrightarrow>
                string_fields keys r
                \<and> (\<exists>sid. safeString (field (Some v) ''id'') = Some sid
                        \<and> record_id r = (if sid \<noteq> [] then sid
                                          else p @ show_int (clock i) @ ''-'' @ show_nat i))"
      and m: "map_index f L 0 = Some out"
  shows "length out = length L
       \<and> (\<forall>i<length L.
             string_fields keys (out ! i) \<and> record_id (out ! i) \<noteq> []
           \<and> (\<forall>sid. safeString (field (Some (L ! i)) ''id'') = Some sid \<and> sid \<noteq> [] \<longrightarrow>
                  record_id (out ! i) = sid))
       \<and> (\<forall>i<length L. \<forall>j<length L.
             i \<noteq> j \<and> safeString (field (Some (L ! i)) ''id'') = Some []
                   \<and> safeString (field (Some (L ! j)) ''id'') = Some [] \<longrightarrow>
             record_id (out ! i) \<noteq> record_id (out ! j))"
proof (intro conjI allI impI)
  show "length out = length L" using m by (rule map_index_length)
next
  fix i assume i: "i < length L"
  have r: "f (L ! i) i = Some (out ! i)" using map_index_nth [OF m i] by simp
  from f [OF r] obtain sid where
    sf: "string_fields keys (out ! i)" and
    sid: "safeString (field (Some (L ! i)) ''id'') = Some sid" and
    rid: "record_id (out ! i) = (if sid \<noteq> [] then sid
                                 else p @ show_int (clock i) @ ''-'' @ show_nat i)"
    by blast
  show "string_fields keys (out ! i)" by (rule sf)
  show "record_id (out ! i) \<noteq> []" using rid show_nat_not_Nil [of i] by (simp split: if_splits)
  fix s assume "safeString (field (Some (L ! i)) ''id'') = Some s \<and> s \<noteq> []"
  then show "record_id (out ! i) = s" using sid rid by simp
next
  fix i j
  assume i: "i < length L" and j: "j < length L"
    and h: "i \<noteq> j \<and> safeString (field (Some (L ! i)) ''id'') = Some []
                   \<and> safeString (field (Some (L ! j)) ''id'') = Some []"
  have ri: "f (L ! i) i = Some (out ! i)" using map_index_nth [OF m i] by simp
  have rj: "f (L ! j) j = Some (out ! j)" using map_index_nth [OF m j] by simp
  have "record_id (out ! i) = p @ show_int (clock i) @ ''-'' @ show_nat i"
    using f [OF ri] h by auto
  moreover have "record_id (out ! j) = p @ show_int (clock j) @ ''-'' @ show_nat j"
    using f [OF rj] h by auto
  ultimately show "record_id (out ! i) \<noteq> record_id (out ! j)"
    using generated_id_inj [of p "clock i" i p "clock j" j] h by auto
qed

text \<open>
  Whenever a batch is normalized, the result has the length of the batch; every record has
  the fixed keys, each holding a trimmed string, and a non-empty identifier; a record whose
  supplied identifier is not empty once printed and trimmed has it as its identifier; and
  the records without one get identifiers that differ from each other, whatever the clock
  shows, since each ends in the record's own position.
\<close>

theorem replace_normalizes_batch:
  "(map_index (normalizeVehicle clock) L 0 = Some out \<longrightarrow>
      length out = length L
    \<and> (\<forall>i<length L.
          string_fields vehicle_keys (out ! i) \<and> record_id (out ! i) \<noteq> []
        \<and> (\<forall>sid. safeString (field (Some (L ! i)) ''id'') = Some sid \<and> sid \<noteq> [] \<longrightarrow>
               record_id (out ! i) = sid))
    \<and> (\<forall>i<length L. \<forall>j<length L.
          i \<noteq> j \<and> safeString (field (Some (L ! i)) ''id'') = Some []
                \<and> safeString (field (Some (L ! j)) ''id'') = Some [] \<longrightarrow>
          record_id (out ! i) \<noteq> record_id (out ! j)))
   \<and> (map_index (normalizeGalleryItem clock) L 0 = Some out \<longrightarrow>
      length out = length L
    \<and> (\<forall>i<length L.
          string_fields gallery_keys (out ! i) \<and> record_id (out ! i) \<noteq> []
        \<and> (\<forall>sid. safeString (field (Some (L ! i)) ''id'') = Some sid \<and> sid \<noteq> [] \<longrightarrow>
               record_id (out ! i) = sid))
    \<and> (\<forall>i<length L. \<forall>j<length L.
          i \<noteq> j \<and> safeString (field (Some (L ! i)) ''id'') = Some []
                \<and> safeString (field (Some (L ! j)) ''id'') = Some [] \<longrightarrow>
          record_id (out ! i) \<noteq> record_id (out ! j)))"
proof -
  have v: "\<And>v i r. normalizeVehicle clock v i = Some r \<Longrightarrow>
             string_fields vehicle_keys r
             \<and> (\<exists>sid. safeString (field (Some v) ''id'') = Some sid
                     \<and> record_id r = (if sid \<noteq> [] then sid
                                       else ''custom-'' @ show_int (clock i) @ ''-'' @ show_nat i))"
    by (rule normalizeVehicle_record)
  have g: "\<And>v i r. normalizeGalleryItem clock v i = Some r \<Longrightarrow>
             string_fields gallery_keys r
             \<and> (\<exists>sid. safeString (field (Some v) ''id'') = Some sid
                     \<and> record_id r = (if sid \<noteq> [] then sid
                                       else ''gallery-'' @ show_int (clock i) @ ''-''
                                            @ show_nat i))"
    by (rule normalizeGalleryItem_record)
  show ?thesis
    using batch_properties [where f = "normalizeVehicle clock" and p = "''custom-''"
        and clock = clock and keys = vehicle_keys and L = L and out = out, OF v]
      batch_properties [where f = "normalizeGalleryItem clock" and p = "''gallery-''"
        and clock = clock and keys = gallery_keys and L = L and out = out, OF g]
    by blast
qed

text \<open>A batch is normalized whenever every field the normalizer reads can be printed.\<close>

lemma normalizeVehicle_succeeds:
  assumes "\<forall>k \<in> set vehicle_keys. safeString (field (Some v) k) \<noteq> None"
  shows "normalizeVehicle clock v i \<noteq> None"
  using assms unfolding normalizeVehicle_def Let_def vehicle_keys_def
  by (auto split: bind_splits)

lemma normalizeGalleryItem_succeeds:
  assumes "\<forall>k \<in> set gallery_keys. safeString (field (Some v) k) \<noteq> None"
  shows "normalizeGalleryItem clock v i \<noteq> None"
  using assms unfolding normalizeGalleryItem_def Let_def gallery_keys_def
  by (auto split: bind_splits)

lemma map_index_succeeds:
  assumes "\<And>v i. v \<in> set L \<Longrightarrow> f v i \<noteq> None"
  shows "map_index f L k \<noteq> None"
  using assms
proof (induction L arbitrary: k)
  case Nil
  then show ?case by simp
next
  case (Cons x xs)
  obtain r where r: "f x k = Some r" using Cons.prems [of x k] by auto
  obtain out where "map_index f xs (Suc k) = Some out"
    using Cons.IH [of "Suc k"] Cons.prems by auto
  then show ?case using r by simp
qed

section \<open>Replace and reset under an ordinary key\<close>

lemma own_js_set: "k \<noteq> ''__proto__'' \<Longrightarrow> map_of (own (js_set obj k v)) k = Some v"
  by (simp add: js_set_def update_conv')

lemma put_fleet_ok:
  assumes "write_error e = None"
      and "map_index (normalizeVehicle (now e)) (payload_of b) 0 = Some normalized"
  shows "put_fleet e q b st
           = (Inr (json_res 200 (JArr normalized)),
              (snd (assign (readFleet st) (getLang q) (JArr normalized) st))
                \<lparr>fs_writes := Suc (fs_writes st),
                 fleet_json := Holds (own (js_set (deref st (readFleet st)) (getLang q)
                                             (JArr normalized)))\<rparr>)"
  using assms
  by (auto simp: put_fleet_def assign_def deref_def writeFleet_def Let_def
      split: reference.splits)

lemma put_gallery_ok:
  assumes "write_error e = None"
      and "map_index (normalizeGalleryItem (now e)) (payload_of b) 0 = Some normalized"
  shows "put_gallery e q b st
           = (Inr (json_res 200 (JArr normalized)),
              (snd (assign (readGallery st) (getLang q) (JArr normalized) st))
                \<lparr>fs_writes := Suc (fs_writes st),
                 gallery_json := Holds (own (js_set (deref st (readGallery st)) (getLang q)
                                               (JArr normalized)))\<rparr>)"
  using assms
  by (auto simp: put_gallery_def assign_def deref_def writeGallery_def Let_def
      split: reference.splits)

lemma get_fleet_Holds:
  "fleet_json st = Holds d \<Longrightarrow> map_of d (getLang q) = Some (JArr xs) \<Longrightarrow>
     app e (GetFleet q) st = (json_res 200 (JArr xs), st)"
  by (simp add: app_def get_fleet_def readFleet_Holds list_or_me_def)

lemma get_gallery_Holds:
  "gallery_json st = Holds d \<Longrightarrow> map_of d (getLang q) = Some (JArr xs) \<Longrightarrow>
     app e (GetGallery q) st = (json_res 200 (JArr xs), st)"
  by (simp add: app_def get_gallery_def readGallery_Holds list_or_me_def)

text \<open>
  For every key but \<^verbatim>\<open>__proto__\<close>: an authenticated replace whose batch can be
  normalized and whose write succeeds answers 200 with the normalized list, and a read of
  that language afterwards returns the same list.
\<close>

theorem replace_then_list:
  assumes "admin (session st) = Some True" and "write_error e = None"
      and "getLang q \<noteq> ''__proto__''"
  shows "(map_index (normalizeVehicle (now e)) (payload_of b) 0 = Some normalized \<longrightarrow>
            fst (app e (PutFleet q b) st) = json_res 200 (JArr normalized)
          \<and> fst (app e2 (GetFleet q) (snd (app e (PutFleet q b) st)))
              = json_res 200 (JArr normalized)
          \<and> length normalized = length (payload_of b))
       \<and> (map_index (normalizeGalleryItem (now e)) (payload_of b) 0 = Some normalized \<longrightarrow>
            fst (app e (PutGallery q b) st) = json_res 200 (JArr normalized)
          \<and> fst (app e2 (GetGallery q) (snd (app e (PutGallery q b) st)))
              = json_res 200 (JArr normalized)
          \<and> length normalized = length (payload_of b))"
proof (intro conjI impI)
  assume n: "map_index (normalizeVehicle (now e)) (payload_of b) 0 = Some normalized"
  let ?d = "own (js_set (deref st (readFleet st)) (getLang q) (JArr normalized))"
  have put: "app e (PutFleet q b) st
               = (json_res 200 (JArr normalized),
                  (snd (assign (readFleet st) (getLang q) (JArr normalized) st))
                    \<lparr>fs_writes := Suc (fs_writes st), fleet_json := Holds ?d\<rparr>)"
    using assms(1) by (simp add: app_def requireAuth_def put_fleet_ok [OF assms(2) n])
  show "fst (app e (PutFleet q b) st) = json_res 200 (JArr normalized)"
    by (simp add: put)
  show "fst (app e2 (GetFleet q) (snd (app e (PutFleet q b) st)))
          = json_res 200 (JArr normalized)"
    by (simp add: put get_fleet_Holds [where d = ?d] own_js_set [OF assms(3)])
  show "length normalized = length (payload_of b)"
    using n by (rule map_index_length)
next
  assume n: "map_index (normalizeGalleryItem (now e)) (payload_of b) 0 = Some normalized"
  let ?d = "own (js_set (deref st (readGallery st)) (getLang q) (JArr normalized))"
  have put: "app e (PutGallery q b) st
               = (json_res 200 (JArr normalized),
                  (snd (assign (readGallery st) (getLang q) (JArr normalized) st))
                    \<lparr>fs_writes := Suc (fs_writes st), gallery_json := Holds ?d\<rparr>)"
    using assms(1) by (simp add: app_def requireAuth_def put_gallery_ok [OF assms(2) n])
  show "fst (app e (PutGallery q b) st) = json_res 200 (JArr normalized)"
    by (simp add: put)
  show "fst (app e2 (GetGallery q) (snd (app e (PutGallery q b) st)))
          = json_res 200 (JArr normalized)"
    by (simp add: put get_gallery_Holds [where d = ?d] own_js_set [OF assms(3)])
  show "length normalized = length (payload_of b)"
    using n by (rule map_index_length)
qed

text \<open>
  For every key but \<^verbatim>\<open>__proto__\<close>, while the live file is readable: an authenticated
  reset whose write succeeds answers with the list the default document gives for the
  language, leaves the default document as it was, and a read of that language afterwards
  returns the same list.
\<close>

theorem reset_returns_defaults_list:
  assumes "admin (session st) = Some True" and "write_error e = None"
      and "getLang q \<noteq> ''__proto__''"
  shows "(fleet_json st = Holds d \<and> list_or_me (defaultFleet st) (getLang q) = JArr xs \<longrightarrow>
            fst (app e (PostFleetReset q) st) = json_res 200 (JArr xs)
          \<and> defaultFleet (snd (app e (PostFleetReset q) st)) = defaultFleet st
          \<and> fst (app e2 (GetFleet q) (snd (app e (PostFleetReset q) st)))
              = json_res 200 (JArr xs))
       \<and> (gallery_json st = Holds d \<and> list_or_me (defaultGallery st) (getLang q) = JArr xs \<longrightarrow>
            fst (app e (PostGalleryReset q) st) = json_res 200 (JArr xs)
          \<and> defaultGallery (snd (app e (PostGalleryReset q) st)) = defaultGallery st
          \<and> fst (app e2 (GetGallery q) (snd (app e (PostGalleryReset q) st)))
              = json_res 200 (JArr xs))"
proof (intro conjI impI)
  assume a: "fleet_json st = Holds d \<and> list_or_me (defaultFleet st) (getLang q) = JArr xs"
  let ?d = "own (js_set (parsed d) (getLang q) (JArr xs))"
  have r: "app e (PostFleetReset q) st
             = (json_res 200 (JArr xs),
                st\<lparr>fs_writes := Suc (fs_writes st), fleet_json := Holds ?d\<rparr>)"
    using assms(1,2) a
    by (simp add: app_def requireAuth_def post_fleet_reset_def readFleet_def readJson_def
        assign_def deref_def writeFleet_def Let_def)
  show "fst (app e (PostFleetReset q) st) = json_res 200 (JArr xs)"
    by (simp add: r)
  show "defaultFleet (snd (app e (PostFleetReset q) st)) = defaultFleet st"
    by (simp add: r)
  show "fst (app e2 (GetFleet q) (snd (app e (PostFleetReset q) st))) = json_res 200 (JArr xs)"
    by (simp add: r get_fleet_Holds [where d = ?d] own_js_set [OF assms(3)])
next
  assume a: "gallery_json st = Holds d \<and> list_or_me (defaultGallery st) (getLang q) = JArr xs"
  let ?d = "own (js_set (parsed d) (getLang q) (JArr xs))"
  have r: "app e (PostGalleryReset q) st
             = (json_res 200 (JArr xs),
                st\<lparr>fs_writes := Suc (fs_writes st), gallery_json := Holds ?d\<rparr>)"
    using assms(1,2) a
    by (simp add: app_def requireAuth_def post_gallery_reset_def readGallery_def readJson_def
        assign_def deref_def writeGallery_def Let_def)
  show "fst (app e (PostGalleryReset q) st) = json_res 200 (JArr xs)"
    by (simp add: r)
  show "defaultGallery (snd (app e (PostGalleryReset q) st)) = defaultGallery st"
    by (simp add: r)
  show "fst (app e2 (GetGallery q) (snd (app e (PostGalleryReset q) st)))
          = json_res 200 (JArr xs)"
    by (simp add: r get_gallery_Holds [where d = ?d] own_js_set [OF assms(3)])
qed

text \<open>A body that is not an array is handled exactly as the empty list is.\<close>

lemma payload_of_non_array: "\<not> isArray b \<Longrightarrow> payload_of b = []"
  by (auto simp: isArray_def payload_of_def split: option.splits json.splits)

theorem non_array_body_is_empty_list:
  assumes "\<not> isArray b"
  shows "app e (PutFleet q b) st = app e (PutFleet q (Some (JArr []))) st
       \<and> app e (PutGallery q b) st = app e (PutGallery q (Some (JArr []))) st
       \<and> (admin (session st) = Some True \<and> write_error e = None \<longrightarrow>
            fst (app e (PutFleet q b) st) = json_res 200 (JArr [])
          \<and> fst (app e (PutGallery q b) st) = json_res 200 (JArr []))"
proof -
  have p: "payload_of b = []" "payload_of (Some (JArr [])) = []"
    using assms by (simp_all add: payload_of_non_array) (simp add: payload_of_def)
  show ?thesis
    by (auto simp: app_def requireAuth_def put_fleet_def put_gallery_def p Let_def assign_def
        writeFleet_def writeGallery_def split: prod.splits reference.splits)
qed

text \<open>
  While both live files are readable, no request changes a default document, and the files
  stay readable: so no sequence of requests does.
\<close>

lemma step_readable:
  assumes "files_readable st"
  shows "defaultFleet (snd (route e req st)) = defaultFleet st
       \<and> defaultGallery (snd (route e req st)) = defaultGallery st
       \<and> files_readable (snd (route e req st))"
proof (cases req)
  case (PutFleet q b)
  then show ?thesis using assms
    by (auto simp: files_readable_def requireAuth_def put_fleet_def readFleet_def readJson_def
        assign_def writeFleet_def Let_def split: disk_file.splits option.splits)
next
  case (PostFleetReset q)
  then show ?thesis using assms
    by (auto simp: files_readable_def requireAuth_def post_fleet_reset_def readFleet_def
        readJson_def assign_def writeFleet_def Let_def split: disk_file.splits option.splits)
next
  case (PutGallery q b)
  then show ?thesis using assms
    by (auto simp: files_readable_def requireAuth_def put_gallery_def readGallery_def
        readJson_def assign_def writeGallery_def Let_def split: disk_file.splits option.splits)
next
  case (PostGalleryReset q)
  then show ?thesis using assms
    by (auto simp: files_readable_def requireAuth_def post_gallery_reset_def readGallery_def
        readJson_def assign_def writeGallery_def Let_def split: disk_file.splits option.splits)
next
  case (PostUpload part)
  then show ?thesis using assms
    by (auto simp: files_readable_def requireAuth_def post_upload_def upload_single_def
        Let_def split: option.splits sum.splits bool.splits if_splits)
qed (use assms in \<open>auto simp: files_readable_def post_login_def get_me_def post_logout_def
      get_fleet_def get_gallery_def Let_def\<close>)

theorem defaults_unchanged_while_files_readable:
  assumes "files_readable st"
  shows "defaultFleet (run reqs st) = defaultFleet st
       \<and> defaultGallery (run reqs st) = defaultGallery st
       \<and> files_readable (run reqs st)"
  using assms
proof (induction reqs arbitrary: st)
  case Nil
  then show ?case by (simp add: run_def)
next
  case (Cons r reqs)
  obtain e req where r: "r = (e, req)" by (cases r)
  let ?s = "snd (app e req st)"
  have step: "defaultFleet ?s = defaultFleet st \<and> defaultGallery ?s = defaultGallery st
              \<and> files_readable ?s"
    using step_readable [OF Cons.prems, of e req] by (simp add: snd_app)
  have "run (r # reqs) st = run reqs ?s" by (simp add: run_def r)
  then show ?case using Cons.IH [of ?s] step by simp
qed

section \<open>The default documents and the live file (C8, C3)\<close>

text \<open>
  Claim C8 says that no runtime operation changes the default documents held in memory.
  \<^verbatim>\<open>readFleet()\<close> returns \<^verbatim>\<open>defaultFleet\<close> itself when \<^verbatim>\<open>fleet.json\<close> cannot be
  read, and the replace route assigns into what it returns. Here the server started with an
  unreadable \<^verbatim>\<open>fleet.json\<close>; one authenticated replace for \<^verbatim>\<open>me\<close> leaves
  \<^verbatim>\<open>defaultFleet\<close> holding the submitted list in place of the one loaded at start.
\<close>

theorem replace_changes_defaultFleet:
  "fleet_json started_unreadable = Unreadable
   \<and> defaultFleet started_unreadable = parsed fleet_defaults
   \<and> app example_env (PutFleet (Some (JStr ''me'')) (Some car_a)) started_unreadable
     = (\<lparr>status = 200, body = car_a_normalized\<rparr>,
        started_unreadable
          \<lparr>fleet_json := Holds [(''me'', car_a_normalized)],
           defaultFleet := parsed [(''me'', car_a_normalized)],
           fs_writes := 1\<rparr>)
   \<and> parsed [(''me'', car_a_normalized)] \<noteq> parsed fleet_defaults"
  by (simp add: eval_defs normalize_car_a started_unreadable_eq car_a_normalized_def
      fleet_defaults_def parsed_def)

text \<open>
  Claim C3 says that a reset returns the default document's list whatever was replaced
  before. After the replace above, the reset for \<^verbatim>\<open>me\<close> returns the list that was
  submitted, not the list of the defaults file: the same shared object is the cause.
\<close>

theorem reset_returns_replaced_list:
  "list_or_me (defaultFleet started_unreadable) ''me''
     = JArr [JObj [(''id'', JStr ''d1''), (''title'', JStr ''Default car'')]]
   \<and> fst (app example_env (PostFleetReset (Some (JStr ''me'')))
            (snd (app example_env (PutFleet (Some (JStr ''me'')) (Some car_a))
                    started_unreadable)))
     = \<lparr>status = 200, body = car_a_normalized\<rparr>
   \<and> car_a_normalized \<noteq> JArr [JObj [(''id'', JStr ''d1''), (''title'', JStr ''Default car'')]]"
  by (simp add: eval_defs normalize_car_a started_unreadable_eq car_a_normalized_def
      fleet_defaults_def parsed_def js_get_def)

section \<open>The key \<^verbatim>\<open>__proto__\<close> and records that cannot be printed (C2)\<close>

text \<open>
  Claim C2 says that after an authenticated replace the list read back for the language has
  as many records as the list submitted, and that every submitted list comes back normalized.
  With \<^verbatim>\<open>lang=__proto__\<close> the assignment \<^verbatim>\<open>data[lang] = normalized\<close> sets the
  prototype of \<^verbatim>\<open>data\<close> and stores nothing: the replace answers with the one
  normalized record, the file is rewritten as it was, and the list read back is the
  \<^verbatim>\<open>me\<close> list, here empty. And a record with a field that \<^verbatim>\<open>String\<close> cannot print
  (an object with an own \<^verbatim>\<open>toString\<close> key) makes the normalizer throw: the answer is
  400 and no list.
\<close>

theorem replace_under_proto_key:
  "app example_env (PutFleet (Some (JStr ''__proto__'')) (Some car_a)) bare
     = (\<lparr>status = 200, body = car_a_normalized\<rparr>, bare\<lparr>fs_writes := 1\<rparr>)
   \<and> app example_env (GetFleet (Some (JStr ''__proto__''))) (bare\<lparr>fs_writes := 1\<rparr>)
     = (\<lparr>status = 200, body = JArr []\<rparr>, bare\<lparr>fs_writes := 1\<rparr>)
   \<and> app example_env
        (PutFleet (Some (JStr ''en'')) (Some (JArr [JObj [(''id'', JObj [(''toString'', JNull)])]])))
        bare
     = (\<lparr>status = 400,
         body = JObj [(''error'', JStr ''Cannot convert object to primitive value'')]\<rparr>, bare)"
proof (intro conjI)
  show "app example_env (PutFleet (Some (JStr ''__proto__'')) (Some car_a)) bare
          = (\<lparr>status = 200, body = car_a_normalized\<rparr>, bare\<lparr>fs_writes := 1\<rparr>)"
    by (simp add: eval_defs normalize_car_a bare_eq car_a_normalized_def parsed_def)
  show "app example_env (GetFleet (Some (JStr ''__proto__''))) (bare\<lparr>fs_writes := 1\<rparr>)
          = (\<lparr>status = 200, body = JArr []\<rparr>, bare\<lparr>fs_writes := 1\<rparr>)"
    by (simp add: eval_defs bare_eq)
  show "app example_env
          (PutFleet (Some (JStr ''en''))
             (Some (JArr [JObj [(''id'', JObj [(''toString'', JNull)])]]))) bare
          = (\<lparr>status = 400,
              body = JObj [(''error'', JStr ''Cannot convert object to primitive value'')]\<rparr>,
             bare)"
    by (simp add: eval_defs payload_of_def normalizeVehicle_def safeString_def
        TypeError_primitive_def bare_eq)
qed

text \<open>The same holds for a body that is not an array: the answer is 200 with \<^verbatim>\<open>[]\<close>,
  and the list read back under \<^verbatim>\<open>__proto__\<close> is still the \<^verbatim>\<open>me\<close> list.\<close>

theorem non_array_body_under_proto_key:
  "\<not> isArray (Some (JObj [(''a'', JNum ''1'')]))
   \<and> app example_env (PutFleet (Some (JStr ''__proto__'')) (Some (JObj [(''a'', JNum ''1'')])))
        logged_in
     = (\<lparr>status = 200, body = JArr []\<rparr>, logged_in\<lparr>fs_writes := 1\<rparr>)
   \<and> app example_env (GetFleet (Some (JStr ''__proto__''))) (logged_in\<lparr>fs_writes := 1\<rparr>)
     = (\<lparr>status = 200,
         body = JArr [JObj [(''id'', JStr ''d1''), (''title'', JStr ''Default car'')]]\<rparr>,
        logged_in\<lparr>fs_writes := 1\<rparr>)"
  by (simp add: eval_defs logged_in_eq isArray_def fleet_defaults_def
      parsed_def js_get_def payload_of_def)

section \<open>A body that is not an array (C10)\<close>

text \<open>
  Claim C10 says that an authenticated replace whose JSON body is not an array, be it an
  object, a string or a number, is not rejected as invalid input. A JSON string or number
  never reaches the route: the body parser, strict by default, refuses it, and the error
  middleware answers 400.
\<close>

theorem string_body_rejected_counterexample:
  "\<not> isArray (Some (JStr ''abc''))
   \<and> http example_env (Some (JStr ''abc'')) (PutFleet (Some (JStr ''en''))) logged_in
     = (\<lparr>status = 400,
         body = JObj [(''error'', JStr ''Unexpected token in JSON at position 0'')]\<rparr>,
        logged_in)"
  by (simp add: isArray_def http_def express_json_def example_env_def error_middleware_def
      json_res_def error_body_def)

text \<open>
  Claim C10, amended. For every authenticated \<^verbatim>\<open>PUT /api/fleet\<close> or
  \<^verbatim>\<open>PUT /api/gallery\<close> whose JSON body, within the parser's limit of 2 MB, is an
  object, the one kind of JSON value besides an array that the body parser hands on, and
  likewise for one without a JSON body: the
  request is handled exactly as if the empty list had been sent; when the write succeeds the
  answer is 200 with the empty array, and for a language key other than \<^verbatim>\<open>__proto__\<close>
  the list stored for the language and read back is empty. A body that is \<^verbatim>\<open>null\<close>,
  a boolean, a number or a string is refused by the parser: the answer is 400 with the
  parser's message and nothing changes.
\<close>

theorem object_body_is_empty_list:
  assumes "admin (session st) = Some True"
  shows "(\<forall>to_route \<in> {PutFleet q, PutGallery q}.
            http e (Some (JObj kvs)) to_route st = http e (Some (JArr [])) to_route st
          \<and> http e None to_route st = http e (Some (JArr [])) to_route st
          \<and> (write_error e = None \<longrightarrow>
                fst (http e (Some (JObj kvs)) to_route st) = json_res 200 (JArr [])))
       \<and> (write_error e = None \<and> getLang q \<noteq> ''__proto__'' \<longrightarrow>
            fst (app e2 (GetFleet q) (snd (http e (Some (JObj kvs)) (PutFleet q) st)))
              = json_res 200 (JArr [])
          \<and> fst (app e2 (GetGallery q) (snd (http e (Some (JObj kvs)) (PutGallery q) st)))
              = json_res 200 (JArr []))
       \<and> (\<forall>to_route \<in> {PutFleet q, PutGallery q}.
            \<forall>v \<in> {JNull, JBool t, JNum n, JStr s}.
              http e (Some v) to_route st
                = (json_res 400 (error_body (if strict_message e v \<noteq> [] then strict_message e v
                                             else ''Bad request'')), st))"
proof -
  have obj: "\<not> isArray (Some (JObj kvs))" "\<not> isArray None" by (simp_all add: isArray_def)
  have h: "\<And>r. http e (Some (JObj kvs)) r st = app e (r (Some (JObj kvs))) st"
     "\<And>r. http e (Some (JArr [])) r st = app e (r (Some (JArr []))) st"
     "\<And>r. http e None r st = app e (r None) st"
    by (simp_all add: http_def express_json_def)
  have n: "map_index (normalizeVehicle (now e)) (payload_of (Some (JObj kvs))) 0 = Some []"
     "map_index (normalizeGalleryItem (now e)) (payload_of (Some (JObj kvs))) 0 = Some []"
    by (simp_all add: payload_of_def)
  note e1 = non_array_body_is_empty_list [OF obj(1), of e q st]
  note e2 = non_array_body_is_empty_list [OF obj(2), of e q st]
  have fleet: "http e (Some (JObj kvs)) (PutFleet q) st = http e (Some (JArr [])) (PutFleet q) st
          \<and> http e None (PutFleet q) st = http e (Some (JArr [])) (PutFleet q) st
          \<and> (write_error e = None \<longrightarrow>
                fst (http e (Some (JObj kvs)) (PutFleet q) st) = json_res 200 (JArr []))"
    using e1 e2 assms unfolding h by blast
  have gallery: "http e (Some (JObj kvs)) (PutGallery q) st
                   = http e (Some (JArr [])) (PutGallery q) st
          \<and> http e None (PutGallery q) st = http e (Some (JArr [])) (PutGallery q) st
          \<and> (write_error e = None \<longrightarrow>
                fst (http e (Some (JObj kvs)) (PutGallery q) st) = json_res 200 (JArr []))"
    using e1 e2 assms unfolding h by blast
  have rt: "write_error e = None \<and> getLang q \<noteq> ''__proto__'' \<longrightarrow>
            fst (app e2 (GetFleet q) (snd (http e (Some (JObj kvs)) (PutFleet q) st)))
              = json_res 200 (JArr [])
          \<and> fst (app e2 (GetGallery q) (snd (http e (Some (JObj kvs)) (PutGallery q) st)))
              = json_res 200 (JArr [])"
    using replace_then_list [OF assms, of e q "Some (JObj kvs)" "[]" e2] n unfolding h by blast
  have rej: "\<And>r v. v \<in> {JNull, JBool t, JNum n, JStr s} \<Longrightarrow>
               http e (Some v) r st
                = (json_res 400 (error_body (if strict_message e v \<noteq> [] then strict_message e v
                                             else ''Bad request'')), st)"
    by (auto simp: http_def express_json_def error_middleware_def)
  have both: "\<And>r. r \<in> {PutFleet q, PutGallery q} \<Longrightarrow>
            http e (Some (JObj kvs)) r st = http e (Some (JArr [])) r st
          \<and> http e None r st = http e (Some (JArr [])) r st
          \<and> (write_error e = None \<longrightarrow>
                fst (http e (Some (JObj kvs)) r st) = json_res 200 (JArr []))"
    using fleet gallery by blast
  show ?thesis
    apply (rule conjI)
     apply (rule ballI)
     apply (erule both)
    apply (rule conjI)
     apply (rule rt)
    apply (intro ballI)
    apply (erule rej)
    done
qed

theorem object_body_is_empty_list_witness:
  "admin (session logged_in) = Some True \<and> write_error example_env = None
   \<and> getLang (Some (JStr ''en'')) \<noteq> ''__proto__''
   \<and> http example_env (Some (JObj [(''a'', JNum ''1'')])) (PutFleet (Some (JStr ''en''))) logged_in
     = (\<lparr>status = 200, body = JArr []\<rparr>,
        logged_in\<lparr>fleet_json := Holds (fleet_defaults @ [(''en'', JArr [])]), fs_writes := 1\<rparr>)
   \<and> fst (app example_env (GetFleet (Some (JStr ''en'')))
            (logged_in\<lparr>fleet_json := Holds (fleet_defaults @ [(''en'', JArr [])]),
                        fs_writes := 1\<rparr>))
     = \<lparr>status = 200, body = JArr []\<rparr>
   \<and> http example_env (Some (JNum ''7'')) (PutGallery (Some (JStr ''en''))) logged_in
     = (\<lparr>status = 400,
         body = JObj [(''error'', JStr ''Unexpected token in JSON at position 0'')]\<rparr>,
        logged_in)"
proof -
  let ?b = "Some (JObj [(''a'', JNum ''1'')])"
  let ?q = "Some (JStr ''en'')"
  let ?st = "logged_in\<lparr>fleet_json := Holds (fleet_defaults @ [(''en'', JArr [])]),
                        fs_writes := 1\<rparr>"
  have a: "admin (session logged_in) = Some True" by (simp add: logged_in_eq)
  have w: "write_error example_env = None" by (rule example_env_writes)
  have m: "strict_message example_env (JNum ''7'') = ''Unexpected token in JSON at position 0''"
    by (simp add: example_env_def)
  note t = object_body_is_empty_list [OF a, of ?q example_env "[(''a'', JNum ''1'')]"
      example_env True "''7''" "''x''"]
  have s: "snd (http example_env ?b (PutFleet ?q) logged_in) = ?st"
    by (simp add: http_def express_json_def snd_app requireAuth_def put_fleet_def payload_of_def
        readFleet_def readJson_def assign_def deref_def writeFleet_def w js_set_def parsed_def
        logged_in_eq fleet_defaults_def Let_def)
  have f: "fst (http example_env ?b (PutFleet ?q) logged_in) = json_res 200 (JArr [])"
    using t w by blast
  have 1: "http example_env ?b (PutFleet ?q) logged_in = (\<lparr>status = 200, body = JArr []\<rparr>, ?st)"
    using f s by (simp add: prod_eq_iff json_res_def)
  have g: "getLang ?q \<noteq> ''__proto__''" by simp
  have "fst (app example_env (GetFleet ?q) (snd (http example_env ?b (PutFleet ?q) logged_in)))
          = json_res 200 (JArr [])"
    using t w g by blast
  then have 2: "fst (app example_env (GetFleet ?q) ?st) = \<lparr>status = 200, body = JArr []\<rparr>"
    by (simp add: s json_res_def)
  have "http example_env (Some (JNum ''7'')) (PutGallery ?q) logged_in
          = (json_res 400 (error_body (if strict_message example_env (JNum ''7'') \<noteq> []
                                       then strict_message example_env (JNum ''7'')
                                       else ''Bad request'')), logged_in)"
    using t by blast
  then have 3: "http example_env (Some (JNum ''7'')) (PutGallery ?q) logged_in
     = (\<lparr>status = 400,
         body = JObj [(''error'', JStr ''Unexpected token in JSON at position 0'')]\<rparr>,
        logged_in)"
    by (simp add: m json_res_def error_body_def)
  show ?thesis using a w g 1 2 3 by simp
qed

end
